theory Spec2Isabelle
  imports Main "HOL-Library.Word"
begin

unbundle bit_operations_syntax

section \<open>Constants of getaddrinfo.h\<close>

definition EAI_BADFLAGS :: int where "EAI_BADFLAGS = -1"
definition EAI_NONAME :: int where "EAI_NONAME = -2"
definition EAI_AGAIN :: int where "EAI_AGAIN = -3"
definition EAI_FAIL :: int where "EAI_FAIL = -4"
definition EAI_NODATA :: int where "EAI_NODATA = -5"
definition EAI_FAMILY :: int where "EAI_FAMILY = -6"
definition EAI_SOCKTYPE :: int where "EAI_SOCKTYPE = -7"
definition EAI_SERVICE :: int where "EAI_SERVICE = -8"
definition EAI_ADDRFAMILY :: int where "EAI_ADDRFAMILY = -9"
definition EAI_MEMORY :: int where "EAI_MEMORY = -10"
definition EAI_OVERFLOW :: int where "EAI_OVERFLOW = -11"
definition EAI_SYSTEM :: int where "EAI_SYSTEM = -12"

definition NI_NUMERICHOST :: "32 word" where "NI_NUMERICHOST = 0x01"
definition NI_NUMERICSERV :: "32 word" where "NI_NUMERICSERV = 0x02"
definition NI_NOFQDN :: "32 word" where "NI_NOFQDN = 0x04"
definition NI_NAMEREQD :: "32 word" where "NI_NAMEREQD = 0x08"
definition NI_DGRAM :: "32 word" where "NI_DGRAM = 0x10"

definition AI_PASSIVE :: "32 word" where "AI_PASSIVE = 1"
definition AI_CANONNAME :: "32 word" where "AI_CANONNAME = 2"
definition AI_NUMERICHOST :: "32 word" where "AI_NUMERICHOST = 4"

section \<open>gai_strerror\<close>

text \<open>The table \<open>gai_errlist\<close>, the entry with the empty message closing it.\<close>

definition gai_errlist :: "(int \<times> string) list" where
  "gai_errlist =
    [ (0,              ''Error 0''),
      (EAI_BADFLAGS,   ''Invalid flag used''),
      (EAI_NONAME,     ''Host or service not found''),
      (EAI_AGAIN,      ''Temporary name service failure''),
      (EAI_FAIL,       ''Non-recoverable name service failure''),
      (EAI_NODATA,     ''No data for host name''),
      (EAI_FAMILY,     ''Unsupported address family''),
      (EAI_SOCKTYPE,   ''Unsupported socket type''),
      (EAI_SERVICE,    ''Incompatible service for socket type''),
      (EAI_ADDRFAMILY, ''Unavailable address family for host name''),
      (EAI_MEMORY,     ''Memory allocation failure''),
      (EAI_OVERFLOW,   ''Buffer overflow''),
      (EAI_SYSTEM,     ''System error''),
      (0,              '''') ]"

definition gai_unknownerr :: string where
  "gai_unknownerr = ''Unrecognized error number''"

text \<open>
  The loop \<open>for (i = 0; *gai_errlist[i].msg; i++)\<close>: it walks the table from the
  front, stops at the first entry whose message is empty, and returns the message of
  the first entry whose code is \<open>errnum\<close>. The table ends with an empty message, so
  the walk never leaves it; the equation for the empty list is never reached from
  \<open>gai_errlist\<close>.
\<close>

fun gai_scan :: "(int \<times> string) list \<Rightarrow> int \<Rightarrow> string" where
  "gai_scan [] errnum = gai_unknownerr"
| "gai_scan ((code, msg) # rest) errnum =
     (if msg = [] then gai_unknownerr
      else if errnum = code then msg
      else gai_scan rest errnum)"

definition gai_strerror :: "int \<Rightarrow> string" where
  "gai_strerror errnum = gai_scan gai_errlist errnum"

text \<open>The twelve error codes of the header.\<close>

definition eai_codes :: "int set" where
  "eai_codes = {EAI_BADFLAGS, EAI_NONAME, EAI_AGAIN, EAI_FAIL, EAI_NODATA, EAI_FAMILY,
     EAI_SOCKTYPE, EAI_SERVICE, EAI_ADDRFAMILY, EAI_MEMORY, EAI_OVERFLOW, EAI_SYSTEM}"

section \<open>The platform\<close>

text \<open>
  The file is built against the platform's socket headers and C library, which are not
  part of the repository. The constants below carry the values of the BSD socket
  headers that kLIBC ships; the theorems use them only through their names.
\<close>

definition AF_INET :: int where "AF_INET = 2"
definition SOCK_STREAM :: int where "SOCK_STREAM = 1"
definition SOCK_DGRAM :: int where "SOCK_DGRAM = 2"
definition SOCK_RAW :: int where "SOCK_RAW = 3"
definition IPPROTO_TCP :: int where "IPPROTO_TCP = 6"
definition IPPROTO_UDP :: int where "IPPROTO_UDP = 17"
definition INADDR_ANY :: "32 word" where "INADDR_ANY = 0"
definition INADDR_LOOPBACK :: "32 word" where "INADDR_LOOPBACK = 0x7f000001"
definition INADDR_NONE :: "32 word" where "INADDR_NONE = 0xffffffff"
definition HOST_NOT_FOUND :: int where "HOST_NOT_FOUND = 1"
definition TRY_AGAIN :: int where "TRY_AGAIN = 2"
definition NO_RECOVERY :: int where "NO_RECOVERY = 3"
definition NO_DATA :: int where "NO_DATA = 4"
definition NO_ADDRESS :: int where "NO_ADDRESS = NO_DATA"
definition ENOMEM :: int where "ENOMEM = 12"
definition ERANGE :: int where "ERANGE = 34"

text \<open>\<open>struct sockaddr_in\<close>, with the length field of \<open>HAVE_SA_LEN\<close>.\<close>

record sockaddr_in =
  sin_len :: nat
  sin_family :: int
  sin_port :: "16 word"
  sin_addr :: "32 word"

text \<open>\<open>sizeof (struct sockaddr_in)\<close>.\<close>

definition sizeof_sockaddr_in :: nat where
  "sizeof_sockaddr_in = 16"

text \<open>
  \<open>struct hostent\<close> as \<open>getaddrinfo\<close> reads it: the official name, the address
  type, the address length, and the first address of the list read as a \<open>u_long\<close>.
\<close>

record hostent =
  h_name :: string
  h_addrtype :: int
  h_length :: int
  h_addr :: "32 word"

text \<open>
  What the platform decides: its byte order, \<open>inet_addr\<close>, and what the resolver
  behind \<open>gethostbyname\<close> answers for a name (\<open>Inl h\<close>: no entry, and \<open>h_errno\<close>
  set to \<open>h\<close>).
\<close>

record platform =
  big_endian :: bool
  inet_addr :: "string \<Rightarrow> 32 word"
  resolver :: "string \<Rightarrow> int + hostent"

definition bswap32 :: "32 word \<Rightarrow> 32 word" where
  "bswap32 x = push_bit 24 (x AND 0xff) OR push_bit 8 (x AND 0xff00)
     OR (drop_bit 8 x AND 0xff00) OR drop_bit 24 x"

definition bswap16 :: "16 word \<Rightarrow> 16 word" where
  "bswap16 x = push_bit 8 (x AND 0xff) OR drop_bit 8 x"

definition htonl :: "platform \<Rightarrow> 32 word \<Rightarrow> 32 word" where
  "htonl P x = (if big_endian P then x else bswap32 x)"

definition ntohl :: "platform \<Rightarrow> 32 word \<Rightarrow> 32 word" where
  "ntohl P x = (if big_endian P then x else bswap32 x)"

definition htons :: "platform \<Rightarrow> 16 word \<Rightarrow> 16 word" where
  "htons P x = (if big_endian P then x else bswap16 x)"

definition ntohs :: "platform \<Rightarrow> 16 word \<Rightarrow> 16 word" where
  "ntohs P x = (if big_endian P then x else bswap16 x)"

text \<open>The conversion \<open>%u\<close> of \<open>snprintf\<close>: an unsigned value in decimal.\<close>

definition digit_char :: "nat \<Rightarrow> char" where
  "digit_char n = ''0123456789'' ! n"

fun fmt_u :: "nat \<Rightarrow> string" where
  "fmt_u n = (if n < 10 then [digit_char n] else fmt_u (n div 10) @ [digit_char (n mod 10)])"

declare fmt_u.simps [simp del]

text \<open>
  \<open>snprintf (buf, size, ...)\<close> for a formatted text \<open>s\<close>: the buffer afterwards
  (its contents as a C string) and the value returned. With \<open>size = 0\<close> nothing is
  written; otherwise at most \<open>size - 1\<close> characters and the terminator. The value
  returned is the length of the whole text.
\<close>

definition snprintf :: "string \<Rightarrow> nat \<Rightarrow> string \<Rightarrow> string \<times> int" where
  "snprintf buf sz s = (if sz = 0 then buf else take (sz - 1) s, int (length s))"

section \<open>getnameinfo\<close>

definition NI_MASK :: "32 word" where
  "NI_MASK = NI_NUMERICHOST OR NI_NUMERICSERV OR NI_NOFQDN OR NI_NAMEREQD OR NI_DGRAM"

text \<open>The text of \<open>"%u.%u.%u.%u"\<close> for the address in host byte order.\<close>

definition fmt_ipv4 :: "32 word \<Rightarrow> string" where
  "fmt_ipv4 ipv4 =
     fmt_u (unat (drop_bit 24 ipv4)) @ ''.'' @
     fmt_u (unat (drop_bit 16 ipv4 AND 0xff)) @ ''.'' @
     fmt_u (unat (drop_bit 8 ipv4 AND 0xff)) @ ''.'' @
     fmt_u (unat (ipv4 AND 0xff))"

text \<open>
  \<open>getnameinfo\<close>. The buffers \<open>host\<close> and \<open>serv\<close> are \<open>None\<close> for a null pointer,
  else their contents; the result is the value returned and the two buffers
  afterwards. The lengths \<open>salen\<close>, \<open>hostlen\<close> and \<open>servlen\<close> are 32-bit \<open>int\<close>s:
  \<open>sint\<close> reads them as such, \<open>unat\<close> is their conversion to \<open>size_t\<close>.
\<close>

definition getnameinfo ::
  "platform \<Rightarrow> sockaddr_in \<Rightarrow> 32 word \<Rightarrow> string option \<Rightarrow> 32 word \<Rightarrow> string option
     \<Rightarrow> 32 word \<Rightarrow> 32 word \<Rightarrow> int \<times> string option \<times> string option" where
  "getnameinfo P sa salen host hostlen serv servlen flags =
    (if unat salen < sizeof_sockaddr_in \<or> sin_family sa \<noteq> AF_INET
       then (EAI_FAMILY, host, serv)
     else if flags AND NOT NI_MASK \<noteq> 0
       then (EAI_BADFLAGS, host, serv)
     else
       let (rh, host') =
         (case host of
            None \<Rightarrow> (0, None)
          | Some hbuf \<Rightarrow>
              if flags AND NI_NUMERICHOST = 0 \<and> flags AND NI_NAMEREQD \<noteq> 0
                then (EAI_NONAME, Some hbuf)
              else
                let ipv4 = ntohl P (sin_addr sa);
                    (hbuf', n) = snprintf hbuf (unat hostlen) (fmt_ipv4 ipv4)
                in if n \<ge> sint hostlen then (EAI_OVERFLOW, Some hbuf') else (0, Some hbuf'))
       in if rh \<noteq> 0 then (rh, host', serv)
          else
            (case serv of
               None \<Rightarrow> (0, host', None)
             | Some sbuf \<Rightarrow>
                 let (sbuf', n) = snprintf sbuf (unat servlen)
                                    (fmt_u (unat (ntohs P (sin_port sa))))
                 in if n \<ge> sint servlen then (EAI_OVERFLOW, host', Some sbuf')
                    else (0, host', Some sbuf')))"

text \<open>The address a.b.c.d as a 32-bit value in host byte order, and its text.\<close>

definition ipv4_of_octets :: "nat \<Rightarrow> nat \<Rightarrow> nat \<Rightarrow> nat \<Rightarrow> 32 word" where
  "ipv4_of_octets a b c d = of_nat (a * 2 ^ 24 + b * 2 ^ 16 + c * 2 ^ 8 + d)"

definition dotted :: "nat \<Rightarrow> nat \<Rightarrow> nat \<Rightarrow> nat \<Rightarrow> string" where
  "dotted a b c d = fmt_u a @ ''.'' @ fmt_u b @ ''.'' @ fmt_u c @ ''.'' @ fmt_u d"

text \<open>The value of a decimal numeral, to say what \<open>fmt_u\<close> prints.\<close>

definition decimal_value :: "string \<Rightarrow> nat" where
  "decimal_value s = foldl (\<lambda>acc c. 10 * acc + (of_char c - 48)) 0 s"

section \<open>The heap\<close>

text \<open>
  A pointer is \<open>None\<close> (null) or the address of a heap cell. A cell holds a
  \<open>struct addrinfo\<close>, a copied socket address, a duplicated string, or nothing yet
  (\<open>Raw\<close>, fresh from \<open>malloc\<close>).
\<close>

type_synonym ptr = "nat option"

record addrinfo =
  ai_flags :: "32 word"
  ai_family :: int
  ai_socktype :: int
  ai_protocol :: int
  ai_addrlen :: nat
  ai_addr :: ptr
  ai_canonname :: ptr
  ai_next :: ptr

datatype obj = Raw | Addrinfo addrinfo | Sockaddr sockaddr_in | Cstring string

text \<open>
  The state the functions work on: the live heap cells, the next address \<open>malloc\<close>
  hands out, the outcomes of the coming allocations (\<open>True\<close>: succeeds; once the list
  is used up every allocation succeeds), the log of the non-null pointers passed to
  \<open>free\<close>, the globals \<open>h_errno\<close> and \<open>errno\<close>, and the log of the names passed to
  \<open>gethostbyname\<close>.
\<close>

record state =
  heap :: "nat \<rightharpoonup> obj"
  next_addr :: nat
  alloc_script :: "bool list"
  frees :: "nat list"
  h_errno :: int
  errno :: int
  lookups :: "string list"

definition alloc_cell :: "state \<Rightarrow> ptr \<times> state" where
  "alloc_cell s =
     (Some (next_addr s),
      s\<lparr>heap := (heap s)(next_addr s \<mapsto> Raw), next_addr := Suc (next_addr s)\<rparr>)"

definition malloc :: "state \<Rightarrow> ptr \<times> state" where
  "malloc s =
     (case alloc_script s of
        [] \<Rightarrow> alloc_cell s
      | ok # rest \<Rightarrow>
          if ok then alloc_cell (s\<lparr>alloc_script := rest\<rparr>)
          else (None, s\<lparr>alloc_script := rest\<rparr>))"

text \<open>\<open>free (p)\<close>: nothing for a null pointer; else the cell is gone and the call logged.\<close>

definition free :: "ptr \<Rightarrow> state \<Rightarrow> state" where
  "free p s =
     (case p of
        None \<Rightarrow> s
      | Some a \<Rightarrow> s\<lparr>heap := (heap s)(a := None), frees := frees s @ [a]\<rparr>)"

definition store :: "nat \<Rightarrow> obj \<Rightarrow> state \<Rightarrow> state" where
  "store a v s = s\<lparr>heap := (heap s)(a \<mapsto> v)\<rparr>"

text \<open>An assignment to a field of the \<open>struct addrinfo\<close> at address \<open>a\<close>.\<close>

definition update_addrinfo :: "nat \<Rightarrow> (addrinfo \<Rightarrow> addrinfo) \<Rightarrow> state \<Rightarrow> state" where
  "update_addrinfo a f s =
     (case heap s a of
        Some (Addrinfo r) \<Rightarrow> store a (Addrinfo (f r)) s
      | _ \<Rightarrow> s)"

definition strdup :: "string \<Rightarrow> state \<Rightarrow> ptr \<times> state" where
  "strdup str s =
     (case malloc s of
        (None, s') \<Rightarrow> (None, s')
      | (Some a, s') \<Rightarrow> (Some a, store a (Cstring str) s'))"

section \<open>freeaddrinfo and the builders\<close>

text \<open>
  \<open>freeaddrinfo\<close>: for a non-null \<open>res\<close>, the four calls of \<open>free\<close> in the order of
  the source. C leaves the call undefined when \<open>res\<close> is not the address of a live
  \<open>struct addrinfo\<close>; the model then does nothing.
\<close>

definition freeaddrinfo :: "ptr \<Rightarrow> state \<Rightarrow> state" where
  "freeaddrinfo res s =
     (case res of
        None \<Rightarrow> s
      | Some a \<Rightarrow>
          (case heap s a of
             Some (Addrinfo r) \<Rightarrow>
               free (Some a) (free (ai_next r) (free (ai_addr r) (free (ai_canonname r) s)))
           | _ \<Rightarrow> s))"

definition makeaddrinfo ::
  "int \<Rightarrow> int \<Rightarrow> int \<Rightarrow> sockaddr_in \<Rightarrow> nat \<Rightarrow> string option \<Rightarrow> state \<Rightarrow> ptr \<times> state" where
  "makeaddrinfo af socktype proto addr addrlen canonname s =
     (case malloc s of
        (None, s1) \<Rightarrow> (None, freeaddrinfo None s1)
      | (Some res, s1) \<Rightarrow>
          (case malloc s1 of
             (pa, s2) \<Rightarrow>
               let r = \<lparr>ai_flags = 0, ai_family = af, ai_socktype = socktype,
                        ai_protocol = proto, ai_addrlen = addrlen, ai_addr = pa,
                        ai_canonname = None, ai_next = None\<rparr>;
                   s3 = store res (Addrinfo r) s2
               in (case pa of
                     None \<Rightarrow> (None, freeaddrinfo (Some res) s3)
                   | Some a \<Rightarrow>
                       let s4 = store a (Sockaddr addr) s3
                       in (case canonname of
                             None \<Rightarrow> (Some res, s4)
                           | Some nm \<Rightarrow>
                               (case strdup nm s4 of
                                  (pn, s5) \<Rightarrow>
                                    let s6 = update_addrinfo res (\<lambda>r. r\<lparr>ai_canonname := pn\<rparr>) s5
                                    in if pn \<noteq> None then (Some res, s6)
                                       else (None, freeaddrinfo (Some res) s6))))))"

definition makeipv4info ::
  "int \<Rightarrow> int \<Rightarrow> 32 word \<Rightarrow> 16 word \<Rightarrow> string option \<Rightarrow> state \<Rightarrow> ptr \<times> state" where
  "makeipv4info socktype proto ip port name s =
     (let addr = \<lparr>sin_len = sizeof_sockaddr_in, sin_family = AF_INET,
                  sin_port = port, sin_addr = ip\<rparr>
      in makeaddrinfo AF_INET socktype proto addr sizeof_sockaddr_in name s)"

section \<open>strtoul\<close>

text \<open>
  \<open>strtoul (s, &end, 0)\<close> of the C library, for a 32-bit \<open>unsigned long\<close>: white
  space is skipped, a sign is optional, a leading \<open>0x\<close> before a hexadecimal digit
  selects base 16, another leading \<open>0\<close> base 8, anything else base 10; the longest
  run of digits of the base is converted. Without any digit the value is 0 and \<open>end\<close>
  is the whole of \<open>s\<close>. A value that does not fit gives \<open>ULONG_MAX\<close> and sets
  \<open>errno\<close> to \<open>ERANGE\<close>; a minus sign negates the value within the type.
  The result is the value, the text \<open>end\<close> points at, and whether the value did not fit.
\<close>

definition isspace :: "char \<Rightarrow> bool" where
  "isspace c = (c \<in> {CHR '' '', CHR 0x09, CHR 0x0A, CHR 0x0B, CHR 0x0C, CHR 0x0D})"

definition digit_val :: "char \<Rightarrow> nat option" where
  "digit_val c =
     (let n = (of_char c :: nat)
      in if 48 \<le> n \<and> n \<le> 57 then Some (n - 48)
         else if 97 \<le> n \<and> n \<le> 122 then Some (n - 87)
         else if 65 \<le> n \<and> n \<le> 90 then Some (n - 55)
         else None)"

definition is_digit_of :: "nat \<Rightarrow> char \<Rightarrow> bool" where
  "is_digit_of base c = (case digit_val c of None \<Rightarrow> False | Some v \<Rightarrow> v < base)"

fun scan_digits :: "nat \<Rightarrow> string \<Rightarrow> nat \<Rightarrow> nat \<times> string" where
  "scan_digits base [] acc = (acc, [])"
| "scan_digits base (c # cs) acc =
     (case digit_val c of
        None \<Rightarrow> (acc, c # cs)
      | Some v \<Rightarrow> if v < base then scan_digits base cs (acc * base + v) else (acc, c # cs))"

definition strtoul :: "string \<Rightarrow> 32 word \<times> string \<times> bool" where
  "strtoul s =
     (let s1 = dropWhile isspace s;
          (neg, s2) = (case s1 of
                         c # r \<Rightarrow> if c = CHR ''-'' then (True, r)
                                  else if c = CHR ''+'' then (False, r)
                                  else (False, s1)
                       | [] \<Rightarrow> (False, s1));
          (base, s3) = (case s2 of
                          c0 # c1 # c2 # r \<Rightarrow>
                            if c0 = CHR ''0'' \<and> (c1 = CHR ''x'' \<or> c1 = CHR ''X'') \<and> is_digit_of 16 c2
                              then (16, c2 # r)
                            else if c0 = CHR ''0'' then (8, s2)
                            else (10, s2)
                        | c0 # r \<Rightarrow> if c0 = CHR ''0'' then (8, s2) else (10, s2)
                        | [] \<Rightarrow> (10, s2));
          (v, rest) = scan_digits base s3 0
      in if length rest = length s3 then (0, s, False)
         else if v > 2 ^ 32 - 1 then (0xffffffff, rest, True)
         else (if neg then - of_nat v else of_nat v, rest, False))"

section \<open>getaddrinfo\<close>

definition AI_MASK :: "32 word" where
  "AI_MASK = AI_PASSIVE OR AI_CANONNAME OR AI_NUMERICHOST"

text \<open>
  \<open>gai_error_from_herrno\<close>: the \<open>switch\<close> on the global \<open>h_errno\<close>. Both
  \<open>NO_ADDRESS\<close> and \<open>NO_DATA\<close> give \<open>EAI_NODATA\<close>, whether or not they are equal.
\<close>

definition gai_error_from_herrno :: "state \<Rightarrow> int" where
  "gai_error_from_herrno s =
     (let h = h_errno s
      in if h = HOST_NOT_FOUND then EAI_NONAME
         else if h = NO_ADDRESS \<or> h = NO_DATA then EAI_NODATA
         else if h = NO_RECOVERY then EAI_FAIL
         else if h = TRY_AGAIN then EAI_AGAIN
         else EAI_SYSTEM)"

text \<open>\<open>gethostbyname\<close>: the call is logged; a failed lookup sets \<open>h_errno\<close>.\<close>

definition gethostbyname :: "platform \<Rightarrow> string \<Rightarrow> state \<Rightarrow> hostent option \<times> state" where
  "gethostbyname P name s =
     (case resolver P name of
        Inl h \<Rightarrow> (None, s\<lparr>h_errno := h, lookups := lookups s @ [name]\<rparr>)
      | Inr e \<Rightarrow> (Some e, s\<lparr>lookups := lookups s @ [name]\<rparr>))"

text \<open>
  The check of the hints (the \<open>if (hints != NULL)\<close> block): an error code, or the
  flags and the protocol derived from the socket type. The platform's headers define
  \<open>SOCK_RAW\<close>, so the \<open>switch\<close> accepts it beside 0.
\<close>

definition socktype_protocol :: "int \<Rightarrow> int option" where
  "socktype_protocol st =
     (if st = SOCK_STREAM then Some IPPROTO_TCP
      else if st = SOCK_DGRAM then Some IPPROTO_UDP
      else if st = SOCK_RAW \<or> st = 0 then Some 0
      else None)"

definition check_hints :: "addrinfo option \<Rightarrow> int + (32 word \<times> int)" where
  "check_hints hints =
     (case hints of
        None \<Rightarrow> Inr (0, 0)
      | Some h \<Rightarrow>
          let flags = ai_flags h
          in if flags AND NOT AI_MASK \<noteq> 0 then Inl EAI_BADFLAGS
             else if ai_family h \<noteq> 0 \<and> ai_family h \<noteq> AF_INET then Inl EAI_FAMILY
             else (case socktype_protocol (ai_socktype h) of
                     None \<Rightarrow> Inl EAI_SOCKTYPE
                   | Some protocol \<Rightarrow>
                       if ai_protocol h \<noteq> 0 \<and> protocol \<noteq> 0 \<and> protocol \<noteq> ai_protocol h
                         then Inl EAI_SERVICE
                       else Inr (flags, protocol)))"

text \<open>
  The address of the node (the block under \<open>default values\<close>): an error code, or
  the address and the name the resolver gave.
\<close>

definition resolve_node ::
  "platform \<Rightarrow> string option \<Rightarrow> 32 word \<Rightarrow> state \<Rightarrow> (int + (32 word \<times> string option)) \<times> state" where
  "resolve_node P node flags s =
     (case node of
        None \<Rightarrow>
          (Inr (if flags AND AI_PASSIVE \<noteq> 0 then htonl P INADDR_ANY
                else htonl P INADDR_LOOPBACK, None), s)
      | Some n \<Rightarrow>
          let ip = inet_addr P n
          in if ip = INADDR_NONE then
               (case (if flags AND AI_NUMERICHOST = 0 then gethostbyname P n s else (None, s)) of
                  (None, s1) \<Rightarrow> (Inl (gai_error_from_herrno s1), s1)
                | (Some entry, s1) \<Rightarrow>
                    if h_length entry \<noteq> 4 \<or> h_addrtype entry \<noteq> AF_INET
                      then (Inl EAI_FAMILY, s1)
                    else (Inr (h_addr entry,
                               if flags AND AI_CANONNAME \<noteq> 0 then Some (h_name entry)
                               else None), s1))
             else (Inr (ip, None), s))"

text \<open>The port of the service (the block under \<open>service resolution\<close>).\<close>

definition resolve_service ::
  "platform \<Rightarrow> string option \<Rightarrow> state \<Rightarrow> (int + 16 word) \<times> state" where
  "resolve_service P service s =
     (case service of
        None \<Rightarrow> (Inr 0, s)
      | Some sv \<Rightarrow>
          (case strtoul sv of
             (d, end, overflow) \<Rightarrow>
               let s' = (if overflow then s\<lparr>errno := ERANGE\<rparr> else s)
               in if end \<noteq> [] \<or> d > 65535 then (Inl EAI_SERVICE, s')
                  else (Inr (htons P (ucast d)), s')))"

text \<open>
  The construction of the results (the block under \<open>building results\<close>), from the
  value \<open>*res = NULL\<close> on: the value returned, the final \<open>*res\<close>, the final state.
\<close>

definition set_passive :: "32 word \<Rightarrow> nat \<Rightarrow> state \<Rightarrow> state" where
  "set_passive flags info s =
     (if flags AND AI_PASSIVE \<noteq> 0
        then update_addrinfo info (\<lambda>r. r\<lparr>ai_flags := ai_flags r OR AI_PASSIVE\<rparr>) s
      else s)"

definition build_udp ::
  "32 word \<Rightarrow> int \<Rightarrow> 32 word \<Rightarrow> 16 word \<Rightarrow> string option \<Rightarrow> state
     \<Rightarrow> (int \<times> ptr \<times> state) + (ptr \<times> state)" where
  "build_udp flags protocol ip port name s =
     (if protocol = 0 \<or> protocol = IPPROTO_UDP then
        (case makeipv4info SOCK_DGRAM IPPROTO_UDP ip port name s of
           (None, s1) \<Rightarrow> Inl (EAI_SYSTEM, None, s1\<lparr>errno := ENOMEM\<rparr>)
         | (Some info, s1) \<Rightarrow> Inr (Some info, set_passive flags info s1))
      else Inr (None, s))"

definition build_tcp ::
  "32 word \<Rightarrow> int \<Rightarrow> 32 word \<Rightarrow> 16 word \<Rightarrow> string option \<Rightarrow> ptr \<Rightarrow> state
     \<Rightarrow> int \<times> ptr \<times> state" where
  "build_tcp flags protocol ip port name res s =
     (if protocol = 0 \<or> protocol = IPPROTO_TCP then
        (case makeipv4info SOCK_STREAM IPPROTO_TCP ip port name s of
           (None, s1) \<Rightarrow> (EAI_SYSTEM, res, s1\<lparr>errno := ENOMEM\<rparr>)
         | (Some info, s1) \<Rightarrow>
             (0, Some info,
              set_passive flags info (update_addrinfo info (\<lambda>r. r\<lparr>ai_next := res\<rparr>) s1)))
      else (0, res, s))"

definition build_results ::
  "32 word \<Rightarrow> int \<Rightarrow> 32 word \<Rightarrow> 16 word \<Rightarrow> string option \<Rightarrow> state \<Rightarrow> int \<times> ptr \<times> state" where
  "build_results flags protocol ip port name s =
     (case build_udp flags protocol ip port name s of
        Inl failed \<Rightarrow> failed
      | Inr (res, s1) \<Rightarrow> build_tcp flags protocol ip port name res s1)"

text \<open>
  \<open>getaddrinfo\<close>. The argument \<open>res\<close> is the value of \<open>*res\<close> at the call; the
  result is the value returned, the value of \<open>*res\<close> at the return, and the final
  state. The hints are \<open>None\<close> for a null pointer.
\<close>

definition getaddrinfo ::
  "platform \<Rightarrow> string option \<Rightarrow> string option \<Rightarrow> addrinfo option \<Rightarrow> ptr \<Rightarrow> state
     \<Rightarrow> int \<times> ptr \<times> state" where
  "getaddrinfo P node service hints res s =
     (case check_hints hints of
        Inl e \<Rightarrow> (e, res, s)
      | Inr (flags, protocol) \<Rightarrow>
          (case resolve_node P node flags s of
             (Inl e, s1) \<Rightarrow> (e, None, s1)
           | (Inr (ip, name0), s1) \<Rightarrow>
               let name = (if flags AND AI_CANONNAME \<noteq> 0 \<and> name0 = None then node else name0)
               in (case resolve_service P service s1 of
                     (Inl e, s2) \<Rightarrow> (e, None, s2)
                   | (Inr port, s2) \<Rightarrow> build_results flags protocol ip port name s2)))"

section \<open>Reading the results\<close>

text \<open>
  The records of a result list, read from the heap along \<open>ai_next\<close>: \<open>None\<close> when
  the list has more than \<open>n\<close> records or a pointer of it is not the address of a
  live \<open>struct addrinfo\<close>.
\<close>

fun addrinfo_list :: "(nat \<rightharpoonup> obj) \<Rightarrow> nat \<Rightarrow> ptr \<Rightarrow> addrinfo list option" where
  "addrinfo_list h n None = Some []"
| "addrinfo_list h 0 (Some a) = None"
| "addrinfo_list h (Suc n) (Some a) =
     (case h a of
        Some (Addrinfo r) \<Rightarrow> map_option ((#) r) (addrinfo_list h n (ai_next r))
      | _ \<Rightarrow> None)"

text \<open>The protocols of the records of a result \<open>(rc, res, s)\<close>, in the order of the list.\<close>

definition result_protocols :: "int \<times> ptr \<times> state \<Rightarrow> nat \<Rightarrow> int list option" where
  "result_protocols out n =
     (case out of (rc, res, s) \<Rightarrow> map_option (map ai_protocol) (addrinfo_list (heap s) n res))"

text \<open>The socket address a record points at.\<close>

definition sockaddr_of :: "(nat \<rightharpoonup> obj) \<Rightarrow> addrinfo \<Rightarrow> sockaddr_in option" where
  "sockaddr_of h r =
     (case ai_addr r of
        None \<Rightarrow> None
      | Some a \<Rightarrow> (case h a of Some (Sockaddr sa) \<Rightarrow> Some sa | _ \<Rightarrow> None))"

text \<open>
  The ports in the socket addresses of the records of a result \<open>(rc, res, s)\<close>, in the
  order of the list (\<open>None\<close> for a record without a socket address).
\<close>

definition result_ports :: "int \<times> ptr \<times> state \<Rightarrow> nat \<Rightarrow> 16 word option list option" where
  "result_ports out n =
     (case out of (rc, res, s) \<Rightarrow>
        map_option (map (\<lambda>r. map_option sin_port (sockaddr_of (heap s) r)))
          (addrinfo_list (heap s) n res))"

text \<open>
  The record that a successful step of the construction leaves at address \<open>a\<close>, with
  the copy of the socket address in the next cell.
\<close>

definition built :: "state \<Rightarrow> nat \<Rightarrow> 32 word \<Rightarrow> int \<Rightarrow> int \<Rightarrow> 32 word \<Rightarrow> 16 word \<Rightarrow> ptr \<Rightarrow> bool" where
  "built s a flags st pr ip port nxt =
     (case heap s a of
        Some (Addrinfo r) \<Rightarrow>
          ai_protocol r = pr \<and> ai_socktype r = st \<and> ai_family r = AF_INET \<and> ai_next r = nxt
          \<and> ai_flags r = (if flags AND AI_PASSIVE \<noteq> 0 then AI_PASSIVE else 0)
          \<and> ai_addr r = Some (Suc a)
          \<and> heap s (Suc a) = Some (Sockaddr \<lparr>sin_len = sizeof_sockaddr_in,
                sin_family = AF_INET, sin_port = port, sin_addr = ip\<rparr>)
      | _ \<Rightarrow> False)"

text \<open>What every record of a result carries: the family, the flag, the socket address.\<close>

definition expected :: "(nat \<rightharpoonup> obj) \<Rightarrow> 32 word \<Rightarrow> 32 word \<Rightarrow> 16 word \<Rightarrow> addrinfo \<Rightarrow> bool" where
  "expected h flags ip port r =
     (ai_family r = AF_INET
      \<and> ai_flags r = (if flags AND AI_PASSIVE \<noteq> 0 then AI_PASSIVE else 0)
      \<and> sockaddr_of h r = Some \<lparr>sin_len = sizeof_sockaddr_in,
                sin_family = AF_INET, sin_port = port, sin_addr = ip\<rparr>)"

text \<open>The cells allocated between the states \<open>s\<close> and \<open>s'\<close> that are live in \<open>s'\<close>.\<close>

definition live_cells :: "state \<Rightarrow> state \<Rightarrow> nat set" where
  "live_cells s s' = {a. next_addr s \<le> a \<and> a < next_addr s' \<and> heap s' a \<noteq> None}"

text \<open>No allocation was attempted between the states \<open>s\<close> and \<open>s'\<close>.\<close>

definition no_allocation :: "state \<Rightarrow> state \<Rightarrow> bool" where
  "no_allocation s s' =
     (heap s' = heap s \<and> next_addr s' = next_addr s \<and> alloc_script s' = alloc_script s
      \<and> frees s' = frees s)"

text \<open>The test of the source on the result of \<open>strtoul\<close>.\<close>

definition bad_service :: "string \<Rightarrow> bool" where
  "bad_service sv = (case strtoul sv of (d, end, overflow) \<Rightarrow> end \<noteq> [] \<or> d > 65535)"

section \<open>A platform to evaluate on\<close>

text \<open>
  A little-endian platform whose \<open>inet_addr\<close> accepts exactly four decimal numbers up
  to 255 separated by dots and answers \<open>INADDR_NONE\<close> for everything else, and whose
  resolver knows the one name \<open>localhost\<close>.
\<close>

fun split_dots :: "string \<Rightarrow> string list" where
  "split_dots [] = [[]]"
| "split_dots (c # cs) =
     (if c = CHR ''.'' then [] # split_dots cs
      else (case split_dots cs of
              [] \<Rightarrow> [[c]]
            | w # ws \<Rightarrow> (c # w) # ws))"

definition parse_octet :: "string \<Rightarrow> nat option" where
  "parse_octet w =
     (if w \<noteq> [] \<and> list_all (is_digit_of 10) w \<and> length w \<le> 3 \<and> fst (scan_digits 10 w 0) \<le> 255
        then Some (fst (scan_digits 10 w 0))
      else None)"

definition inet_addr_quad :: "string \<Rightarrow> 32 word" where
  "inet_addr_quad s =
     (case map parse_octet (split_dots s) of
        [Some a, Some b, Some c, Some d] \<Rightarrow> bswap32 (ipv4_of_octets a b c d)
      | _ \<Rightarrow> INADDR_NONE)"

definition hosts :: "string \<Rightarrow> int + hostent" where
  "hosts name =
     (if name = ''localhost''
        then Inr \<lparr>h_name = ''localhost'', h_addrtype = AF_INET, h_length = 4,
                  h_addr = bswap32 INADDR_LOOPBACK\<rparr>
      else Inl HOST_NOT_FOUND)"

definition os2 :: platform where
  "os2 = \<lparr>big_endian = False, inet_addr = inet_addr_quad, resolver = hosts\<rparr>"

text \<open>A state with an empty heap in which every allocation succeeds.\<close>

definition init :: state where
  "init = \<lparr>heap = Map.empty, next_addr = 0, alloc_script = [], frees = [],
           h_errno = 0, errno = 0, lookups = []\<rparr>"

text \<open>Hints with the given flags, family, socket type and protocol.\<close>

definition hints_of :: "32 word \<Rightarrow> int \<Rightarrow> int \<Rightarrow> int \<Rightarrow> addrinfo" where
  "hints_of fl fam st pr =
     \<lparr>ai_flags = fl, ai_family = fam, ai_socktype = st, ai_protocol = pr, ai_addrlen = 0,
      ai_addr = None, ai_canonname = None, ai_next = None\<rparr>"

text \<open>
  The result of a call for \<open>localhost\<close> with the canonical name asked for and no
  socket type: two records, each with its address and its copy of the name.
\<close>

definition two_records :: "int \<times> ptr \<times> state" where
  "two_records =
     getaddrinfo os2 (Some ''localhost'') None (Some (hints_of AI_CANONNAME 0 0 0)) None init"

section \<open>Collected defining equations\<close>

lemmas EAI_defs = EAI_BADFLAGS_def EAI_NONAME_def EAI_AGAIN_def EAI_FAIL_def
  EAI_NODATA_def EAI_FAMILY_def EAI_SOCKTYPE_def EAI_SERVICE_def
  EAI_ADDRFAMILY_def EAI_MEMORY_def EAI_OVERFLOW_def EAI_SYSTEM_def

lemmas NI_defs = NI_NUMERICHOST_def NI_NUMERICSERV_def NI_NOFQDN_def
  NI_NAMEREQD_def NI_DGRAM_def

lemmas AI_defs = AI_PASSIVE_def AI_CANONNAME_def AI_NUMERICHOST_def

lemmas sock_defs = AF_INET_def SOCK_STREAM_def SOCK_DGRAM_def SOCK_RAW_def
  IPPROTO_TCP_def IPPROTO_UDP_def

lemmas herrno_defs = HOST_NOT_FOUND_def TRY_AGAIN_def NO_RECOVERY_def NO_DATA_def
  NO_ADDRESS_def

lemmas eval_defs = getaddrinfo_def check_hints_def resolve_node_def resolve_service_def
  build_results_def build_udp_def build_tcp_def set_passive_def makeipv4info_def
  makeaddrinfo_def freeaddrinfo_def strdup_def malloc_def alloc_cell_def free_def store_def
  update_addrinfo_def gethostbyname_def gai_error_from_herrno_def socktype_protocol_def
  AI_MASK_def AI_defs sock_defs herrno_defs EAI_defs strtoul_def isspace_def digit_val_def
  is_digit_of_def htonl_def htons_def bswap32_def bswap16_def INADDR_ANY_def
  INADDR_LOOPBACK_def INADDR_NONE_def ENOMEM_def ERANGE_def sizeof_sockaddr_in_def os2_def
  init_def inet_addr_quad_def parse_octet_def hosts_def ipv4_of_octets_def hints_of_def
  sockaddr_of_def bad_service_def result_protocols_def result_ports_def two_records_def

section \<open>Properties of gai_strerror\<close>

lemma gai_strerror_unfold:
  "gai_strerror c =
    (if c = 0 then ''Error 0''
     else if c = -1 then ''Invalid flag used''
     else if c = -2 then ''Host or service not found''
     else if c = -3 then ''Temporary name service failure''
     else if c = -4 then ''Non-recoverable name service failure''
     else if c = -5 then ''No data for host name''
     else if c = -6 then ''Unsupported address family''
     else if c = -7 then ''Unsupported socket type''
     else if c = -8 then ''Incompatible service for socket type''
     else if c = -9 then ''Unavailable address family for host name''
     else if c = -10 then ''Memory allocation failure''
     else if c = -11 then ''Buffer overflow''
     else if c = -12 then ''System error''
     else ''Unrecognized error number'')"
  by (simp add: gai_strerror_def gai_errlist_def gai_unknownerr_def EAI_defs)

text \<open>
  C9, as the claim states it, fails at code 0: 0 is none of the twelve error codes, yet
  the table's first entry gives it the message "Error 0", not the fixed string for
  unknown codes.
\<close>

theorem gai_strerror_zero_counterexample:
  "(0::int) \<notin> eai_codes \<and> gai_strerror 0 = ''Error 0'' \<and> gai_strerror 0 \<noteq> gai_unknownerr"
  by (simp add: gai_strerror_unfold eai_codes_def EAI_defs gai_unknownerr_def)

text \<open>
  C9 (amended): for every integer code \<open>gai_strerror\<close> returns a non-empty string; each
  of the twelve error codes maps to its fixed descriptive string; code 0 maps to
  "Error 0"; every other code returns exactly "Unrecognized error number". The function
  is a pure table lookup: it takes no state and returns none.
\<close>

theorem gai_strerror_total:
  "gai_strerror c \<noteq> []
   \<and> gai_strerror EAI_BADFLAGS = ''Invalid flag used''
   \<and> gai_strerror EAI_NONAME = ''Host or service not found''
   \<and> gai_strerror EAI_AGAIN = ''Temporary name service failure''
   \<and> gai_strerror EAI_FAIL = ''Non-recoverable name service failure''
   \<and> gai_strerror EAI_NODATA = ''No data for host name''
   \<and> gai_strerror EAI_FAMILY = ''Unsupported address family''
   \<and> gai_strerror EAI_SOCKTYPE = ''Unsupported socket type''
   \<and> gai_strerror EAI_SERVICE = ''Incompatible service for socket type''
   \<and> gai_strerror EAI_ADDRFAMILY = ''Unavailable address family for host name''
   \<and> gai_strerror EAI_MEMORY = ''Memory allocation failure''
   \<and> gai_strerror EAI_OVERFLOW = ''Buffer overflow''
   \<and> gai_strerror EAI_SYSTEM = ''System error''
   \<and> gai_strerror 0 = ''Error 0''
   \<and> (c \<notin> eai_codes \<and> c \<noteq> 0 \<longrightarrow> gai_strerror c = ''Unrecognized error number'')"
  by (simp add: gai_strerror_unfold eai_codes_def EAI_defs)

theorem gai_strerror_total_witness:
  "(-999::int) \<notin> eai_codes \<and> (-999::int) \<noteq> 0
   \<and> gai_strerror (-999) = ''Unrecognized error number''"
  using gai_strerror_total [of "-999"]
  by (simp add: eai_codes_def EAI_defs)

section \<open>Properties of the formatting\<close>

lemma horner_div: "y < 256 \<Longrightarrow> (x * 256 + y) div 256 = (x::nat)"
  by simp

lemma horner_mod: "y < 256 \<Longrightarrow> (x * 256 + y) mod 256 = (y::nat)"
  by simp

lemma octets_horner:
  "a * 2 ^ 24 + b * 2 ^ 16 + c * 2 ^ 8 + d = ((a * 256 + b) * 256 + c) * 256 + (d::nat)"
  by simp

lemma unat_and_ff: "unat ((w::32 word) AND 0xff) = unat w mod 256"
proof -
  have "(0xff::32 word) = mask 8"
    by (simp add: mask_eq_exp_minus_1)
  then have "unat (w AND 0xff) = unat (take_bit 8 w)"
    by (simp add: take_bit_eq_mask)
  also have "\<dots> = take_bit 8 (unat w)"
    by (simp only: unsigned_take_bit_eq)
  also have "\<dots> = unat w mod 256"
    by (simp add: take_bit_eq_mod)
  finally show ?thesis .
qed

lemma unat_shr: "unat (drop_bit k (w::32 word)) = unat w div 2 ^ k"
  unfolding unat_drop_bit_eq by (simp add: drop_bit_eq_div)

text \<open>The four numbers printed for the address a.b.c.d are a, b, c and d.\<close>

lemma fmt_ipv4_octets:
  assumes "a < 256" "b < 256" "c < 256" "d < (256::nat)"
  shows "fmt_ipv4 (ipv4_of_octets a b c d) = dotted a b c d"
proof -
  define n where "n = ((a * 256 + b) * 256 + c) * 256 + d"
  have "n < 2 ^ 32"
    using assms by (simp add: n_def)
  then have n: "unat (of_nat n :: 32 word) = n"
    by (simp only: unat_of_nat) simp
  have d8: "n div 256 = (a * 256 + b) * 256 + c"
    unfolding n_def using assms(4) by (rule horner_div)
  have d16: "n div 65536 = a * 256 + b"
    using horner_div [OF assms(3), of "a * 256 + b"] d8 div_mult2_eq [of n 256 256] by simp
  have d24: "n div 16777216 = a"
    using horner_div [OF assms(2), of a] d16 div_mult2_eq [of n 65536 256] by simp
  have m0: "n mod 256 = d"
    unfolding n_def using assms(4) by (rule horner_mod)
  have m8: "n div 256 mod 256 = c"
    unfolding d8 using assms(3) by (rule horner_mod)
  have m16: "n div 65536 mod 256 = b"
    unfolding d16 using assms(2) by (rule horner_mod)
  have "fmt_ipv4 (of_nat n) = dotted a b c d"
    unfolding fmt_ipv4_def dotted_def
    using d24 m16 m8 m0 by (simp add: unat_and_ff unat_shr n)
  then show ?thesis
    by (simp only: ipv4_of_octets_def octets_horner n_def)
qed

lemma digit_char_value: "n < 10 \<Longrightarrow> of_char (digit_char n) - 48 = n"
proof -
  assume "n < 10"
  then have "n \<in> {0, 1, 2, 3, 4, 5, 6, 7, 8, 9}"
    by auto
  then show ?thesis
    by (auto simp: digit_char_def)
qed

text \<open>What \<open>fmt_u\<close> prints is the decimal numeral of its argument.\<close>

lemma decimal_value_fmt_u: "decimal_value (fmt_u n) = n"
proof (induction n rule: fmt_u.induct)
  case (1 n)
  show ?case
  proof (cases "n < 10")
    case True
    then show ?thesis
      by (subst fmt_u.simps) (simp add: decimal_value_def digit_char_value)
  next
    case False
    with 1 have "decimal_value (fmt_u (n div 10)) = n div 10"
      by simp
    with False show ?thesis
      by (subst fmt_u.simps) (simp add: decimal_value_def digit_char_value)
  qed
qed

lemma sint_nonneg_unat: "0 \<le> sint (w::32 word) \<Longrightarrow> unat w = nat (sint w)"
proof -
  assume a: "0 \<le> sint w"
  have "sint w < 2 ^ 31"
    using sint_lt [of w] by simp
  then have "take_bit 32 (sint w) = sint w"
    using a by (simp add: take_bit_int_eq_self)
  then have "uint w = sint w"
    using uint_sint [of w] by simp
  then show ?thesis
    by (simp add: unat_eq_nat_uint)
qed

section \<open>Properties of the allocator and the builders\<close>

lemma malloc_None:
  "malloc s = (None, s') \<Longrightarrow>
     heap s' = heap s \<and> next_addr s' = next_addr s \<and> frees s' = frees s
     \<and> errno s' = errno s \<and> h_errno s' = h_errno s \<and> lookups s' = lookups s"
  by (auto simp: malloc_def alloc_cell_def split: list.splits if_splits)

lemma malloc_Some:
  "malloc s = (Some a, s') \<Longrightarrow>
     a = next_addr s \<and> heap s' = (heap s)(a \<mapsto> Raw) \<and> next_addr s' = Suc a
     \<and> frees s' = frees s \<and> errno s' = errno s \<and> h_errno s' = h_errno s
     \<and> lookups s' = lookups s"
  by (auto simp: malloc_def alloc_cell_def split: list.splits if_splits)

text \<open>
  \<open>freeaddrinfo\<close> does nothing for a null pointer. For a record it passes to \<open>free\<close>
  the name, the address, the next record and the record itself, in this order, and
  nothing else.
\<close>

lemma freeaddrinfo_null: "freeaddrinfo None s = s"
  by (simp add: freeaddrinfo_def)

lemma freeaddrinfo_frees:
  assumes "heap s a = Some (Addrinfo r)"
  shows "frees (freeaddrinfo (Some a) s)
    = frees s @ List.map_filter id [ai_canonname r, ai_addr r, ai_next r, Some a]"
  using assms
  by (simp add: freeaddrinfo_def free_def List.map_filter_simps split: option.splits)

text \<open>
  A record that \<open>makeaddrinfo\<close> returns is the first cell allocated, with the copy of
  the address in the second and the copy of the name, if any, in the third; no older
  cell is touched and nothing is freed.
\<close>

lemma makeaddrinfo_Some:
  assumes "makeaddrinfo af st pr addr len nm s = (Some a, s')"
  shows "a = next_addr s \<and> Suc (next_addr s) < next_addr s'
    \<and> heap s' a = Some (Addrinfo \<lparr>ai_flags = 0, ai_family = af, ai_socktype = st,
          ai_protocol = pr, ai_addrlen = len, ai_addr = Some (Suc a),
          ai_canonname = (case nm of None \<Rightarrow> None | Some _ \<Rightarrow> Some (Suc (Suc a))),
          ai_next = None\<rparr>)
    \<and> heap s' (Suc a) = Some (Sockaddr addr)
    \<and> (case nm of None \<Rightarrow> True | Some n \<Rightarrow> heap s' (Suc (Suc a)) = Some (Cstring n))
    \<and> (\<forall>x. x < next_addr s \<longrightarrow> heap s' x = heap s x)
    \<and> frees s' = frees s \<and> errno s' = errno s \<and> h_errno s' = h_errno s
    \<and> lookups s' = lookups s"
  using assms
  by (auto simp: makeaddrinfo_def strdup_def freeaddrinfo_def free_def store_def
      update_addrinfo_def Let_def
      split: prod.splits option.splits if_splits dest!: malloc_Some malloc_None)

text \<open>
  When \<open>makeaddrinfo\<close> returns null, every cell it allocated has been freed again and
  no older cell is touched.
\<close>

lemma makeaddrinfo_None:
  assumes "makeaddrinfo af st pr addr len nm s = (None, s')"
  shows "next_addr s \<le> next_addr s'
    \<and> (\<forall>x. x < next_addr s \<longrightarrow> heap s' x = heap s x)
    \<and> (\<forall>x. next_addr s \<le> x \<and> x < next_addr s' \<longrightarrow> heap s' x = None)
    \<and> errno s' = errno s \<and> h_errno s' = h_errno s \<and> lookups s' = lookups s"
  using assms
  by (auto simp: makeaddrinfo_def strdup_def freeaddrinfo_def free_def store_def
      update_addrinfo_def Let_def
      split: prod.splits option.splits if_splits dest!: malloc_Some malloc_None)

section \<open>Properties of the phases of getaddrinfo\<close>

lemma check_hints_Inl:
  "check_hints hints = Inl e \<Longrightarrow> e \<in> {EAI_BADFLAGS, EAI_FAMILY, EAI_SOCKTYPE, EAI_SERVICE}"
  by (auto simp: check_hints_def Let_def split: option.splits if_splits)

lemma check_hints_protocol:
  "check_hints hints = Inr (flags, protocol) \<Longrightarrow>
     (case hints of
        None \<Rightarrow> flags = 0 \<and> protocol = 0
      | Some h \<Rightarrow> flags = ai_flags h \<and> socktype_protocol (ai_socktype h) = Some protocol)"
  by (auto simp: check_hints_def Let_def split: option.splits if_splits)

lemma resolve_node_frame:
  "resolve_node P node flags s = (r, s1) \<Longrightarrow> no_allocation s s1 \<and> errno s1 = errno s"
  by (auto simp: resolve_node_def gethostbyname_def no_allocation_def Let_def
      split: option.splits if_splits sum.splits prod.splits)

lemma resolve_service_frame:
  "resolve_service P service s = (r, s2) \<Longrightarrow>
     no_allocation s s2 \<and> lookups s2 = lookups s \<and> h_errno s2 = h_errno s"
  by (auto simp: resolve_service_def no_allocation_def Let_def
      split: option.splits if_splits prod.splits)

lemma update_addrinfo_heap:
  "heap (update_addrinfo a f s) x =
     (if x = a then (case heap s a of Some (Addrinfo r) \<Rightarrow> Some (Addrinfo (f r)) | v \<Rightarrow> v)
      else heap s x)"
  by (auto simp: update_addrinfo_def store_def split: option.splits obj.splits)

lemma update_addrinfo_frame:
  "next_addr (update_addrinfo a f s) = next_addr s
   \<and> frees (update_addrinfo a f s) = frees s
   \<and> errno (update_addrinfo a f s) = errno s
   \<and> h_errno (update_addrinfo a f s) = h_errno s
   \<and> lookups (update_addrinfo a f s) = lookups s"
  by (auto simp: update_addrinfo_def store_def split: option.splits obj.splits)

lemma build_udp_Inr:
  assumes "build_udp flags protocol ip port name s = Inr (res, s1)"
  shows "if protocol = 0 \<or> protocol = IPPROTO_UDP
         then res = Some (next_addr s) \<and> Suc (next_addr s) < next_addr s1
           \<and> built s1 (next_addr s) flags SOCK_DGRAM IPPROTO_UDP ip port None
           \<and> (\<forall>x. x < next_addr s \<longrightarrow> heap s1 x = heap s x)
           \<and> lookups s1 = lookups s
         else res = None \<and> s1 = s"
proof (cases "protocol = 0 \<or> protocol = IPPROTO_UDP")
  case False
  with assms show ?thesis by (simp add: build_udp_def)
next
  case True
  with assms obtain a s0 where
    mk: "makeipv4info SOCK_DGRAM IPPROTO_UDP ip port name s = (Some a, s0)"
    and res: "res = Some a" and s1: "s1 = set_passive flags a s0"
    by (auto simp: build_udp_def split: prod.splits option.splits)
  note m = makeaddrinfo_Some [OF mk [unfolded makeipv4info_def Let_def]]
  show ?thesis
    using True m res s1
    by (auto simp: built_def set_passive_def update_addrinfo_heap update_addrinfo_frame)
qed

lemma build_tcp_ok:
  assumes "build_tcp flags protocol ip port name res s = (0, res', s')"
  shows "if protocol = 0 \<or> protocol = IPPROTO_TCP
         then res' = Some (next_addr s) \<and> Suc (next_addr s) < next_addr s'
           \<and> built s' (next_addr s) flags SOCK_STREAM IPPROTO_TCP ip port res
           \<and> (\<forall>x. x < next_addr s \<longrightarrow> heap s' x = heap s x)
           \<and> lookups s' = lookups s
         else res' = res \<and> s' = s"
proof (cases "protocol = 0 \<or> protocol = IPPROTO_TCP")
  case False
  with assms show ?thesis by (simp add: build_tcp_def)
next
  case True
  with assms obtain a s0 where
    mk: "makeipv4info SOCK_STREAM IPPROTO_TCP ip port name s = (Some a, s0)"
    and res: "res' = Some a"
    and s1: "s' = set_passive flags a (update_addrinfo a (\<lambda>r. r\<lparr>ai_next := res\<rparr>) s0)"
    by (auto simp: build_tcp_def EAI_SYSTEM_def split: prod.splits option.splits)
  note m = makeaddrinfo_Some [OF mk [unfolded makeipv4info_def Let_def]]
  show ?thesis
    using True m res s1
    by (auto simp: built_def set_passive_def update_addrinfo_heap update_addrinfo_frame)
qed

lemma built_frame:
  assumes "built s a flags st pr ip port nxt" "Suc a < n" "\<forall>x. x < n \<longrightarrow> heap s' x = heap s x"
  shows "built s' a flags st pr ip port nxt"
proof -
  from assms(2) have "a < n" by simp
  with assms have "heap s' a = heap s a" "heap s' (Suc a) = heap s (Suc a)"
    by simp_all
  with assms(1) show ?thesis
    by (auto simp: built_def split: option.splits obj.splits)
qed

lemma built_list:
  assumes "built s a flags st pr ip port nxt" "addrinfo_list (heap s) n nxt = Some l"
  shows "\<exists>r. addrinfo_list (heap s) (Suc n) (Some a) = Some (r # l)
          \<and> ai_protocol r = pr \<and> ai_socktype r = st \<and> ai_family r = AF_INET
          \<and> ai_flags r = (if flags AND AI_PASSIVE \<noteq> 0 then AI_PASSIVE else 0)
          \<and> sockaddr_of (heap s) r = Some \<lparr>sin_len = sizeof_sockaddr_in,
                sin_family = AF_INET, sin_port = port, sin_addr = ip\<rparr>"
  using assms by (auto simp: built_def sockaddr_of_def split: option.splits obj.splits)

lemma build_results_ok:
  assumes ok: "build_results flags protocol ip port name s = (0, res', s')"
    and pr: "protocol = 0 \<or> protocol = IPPROTO_TCP \<or> protocol = IPPROTO_UDP"
  shows "\<exists>l. addrinfo_list (heap s') (Suc (Suc n)) res' = Some l
      \<and> map ai_protocol l = (if protocol = 0 then [IPPROTO_TCP, IPPROTO_UDP] else [protocol])
      \<and> map ai_socktype l = (if protocol = 0 then [SOCK_STREAM, SOCK_DGRAM]
                              else if protocol = IPPROTO_TCP then [SOCK_STREAM]
                              else [SOCK_DGRAM])
      \<and> (\<forall>r \<in> set l. expected (heap s') flags ip port r)
      \<and> lookups s' = lookups s"
proof -
  from ok obtain res1 s1 where
    udp: "build_udp flags protocol ip port name s = Inr (res1, s1)"
    and tcp: "build_tcp flags protocol ip port name res1 s1 = (0, res', s')"
    by (auto simp: build_results_def EAI_SYSTEM_def build_udp_def
        split: sum.splits prod.splits option.splits if_splits)
  note u = build_udp_Inr [OF udp]
  note t = build_tcp_ok [OF tcp]
  have ne: "IPPROTO_TCP \<noteq> 0" "IPPROTO_UDP \<noteq> 0" "IPPROTO_TCP \<noteq> IPPROTO_UDP"
    by (simp_all add: sock_defs)
  from pr consider (both) "protocol = 0" | (tcp) "protocol = IPPROTO_TCP"
    | (udp) "protocol = IPPROTO_UDP"
    by blast
  then show ?thesis
  proof cases
    case udp
    with u t ne have b: "built s' (next_addr s) flags SOCK_DGRAM IPPROTO_UDP ip port None"
      and r: "res' = Some (next_addr s)" and l: "lookups s' = lookups s"
      by auto
    from built_list [OF b, of "Suc n" "[]"] r l udp ne show ?thesis
      by (auto simp: expected_def)
  next
    case tcp
    with u t ne have b: "built s' (next_addr s) flags SOCK_STREAM IPPROTO_TCP ip port None"
      and r: "res' = Some (next_addr s)" and l: "lookups s' = lookups s"
      by auto
    from built_list [OF b, of "Suc n" "[]"] r l tcp ne show ?thesis
      by (auto simp: expected_def)
  next
    case both
    with u have bu: "built s1 (next_addr s) flags SOCK_DGRAM IPPROTO_UDP ip port None"
      and r1: "res1 = Some (next_addr s)" and lt: "Suc (next_addr s) < next_addr s1"
      and l1: "lookups s1 = lookups s"
      by auto
    from both t have bt: "built s' (next_addr s1) flags SOCK_STREAM IPPROTO_TCP ip port res1"
      and r: "res' = Some (next_addr s1)"
      and fr: "\<forall>x. x < next_addr s1 \<longrightarrow> heap s' x = heap s1 x"
      and l: "lookups s' = lookups s1"
      by auto
    from built_frame [OF bu lt fr]
    have bu': "built s' (next_addr s) flags SOCK_DGRAM IPPROTO_UDP ip port None" .
    from built_list [OF bu', of n "[]"] obtain ru where
      lu: "addrinfo_list (heap s') (Suc n) (Some (next_addr s)) = Some [ru]"
      and pu: "ai_protocol ru = IPPROTO_UDP" "ai_socktype ru = SOCK_DGRAM"
        "expected (heap s') flags ip port ru"
      by (auto simp: expected_def)
    from built_list [OF bt lu [folded r1]] obtain rt where
      "addrinfo_list (heap s') (Suc (Suc n)) (Some (next_addr s1)) = Some [rt, ru]"
      "ai_protocol rt = IPPROTO_TCP" "ai_socktype rt = SOCK_STREAM"
      "expected (heap s') flags ip port rt"
      by (auto simp: expected_def)
    with pu r l l1 both show ?thesis
      by auto
  qed
qed

lemma gai_error_from_herrno_code:
  "gai_error_from_herrno s \<in> {EAI_NONAME, EAI_NODATA, EAI_FAIL, EAI_AGAIN, EAI_SYSTEM}"
  by (simp add: gai_error_from_herrno_def Let_def)

lemma resolve_node_Inl:
  "resolve_node P node flags s = (Inl e, s1) \<Longrightarrow>
     e \<in> {EAI_NONAME, EAI_NODATA, EAI_FAIL, EAI_AGAIN, EAI_SYSTEM, EAI_FAMILY}"
  using gai_error_from_herrno_code
  by (auto simp: resolve_node_def Let_def split: option.splits if_splits prod.splits)

lemma resolve_service_Inl:
  "resolve_service P service s = (Inl e, s1) \<Longrightarrow> e = EAI_SERVICE"
  by (auto simp: resolve_service_def Let_def split: option.splits if_splits prod.splits)

lemma getaddrinfo_cases:
  assumes "getaddrinfo P node service hints res s = (rc, res', s')"
  obtains
    (hints) "check_hints hints = Inl rc" "res' = res" "s' = s"
  | (node) flags protocol where
      "check_hints hints = Inr (flags, protocol)"
      "resolve_node P node flags s = (Inl rc, s')" "res' = None"
  | (service) flags protocol ip name0 s1 where
      "check_hints hints = Inr (flags, protocol)"
      "resolve_node P node flags s = (Inr (ip, name0), s1)"
      "resolve_service P service s1 = (Inl rc, s')" "res' = None"
  | (build) flags protocol ip name0 s1 port s2 where
      "check_hints hints = Inr (flags, protocol)"
      "resolve_node P node flags s = (Inr (ip, name0), s1)"
      "resolve_service P service s1 = (Inr port, s2)"
      "build_results flags protocol ip port
         (if flags AND AI_CANONNAME \<noteq> 0 \<and> name0 = None then node else name0) s2 = (rc, res', s')"
  using assms
  by (auto simp: getaddrinfo_def Let_def split: sum.splits prod.splits)

section \<open>The records of a successful call\<close>

text \<open>
  C7: a successful call with the socket-type hint \<open>SOCK_STREAM\<close> returns exactly one
  record, with protocol TCP; with the hint \<open>SOCK_DGRAM\<close> exactly one record, with
  protocol UDP; without hints or with the socket type 0 exactly two records, the TCP
  record first and the UDP record second.
\<close>

theorem getaddrinfo_record_per_protocol:
  assumes "fst (getaddrinfo P node service hints res s) = 0"
  shows "(\<forall>h. hints = Some h \<and> ai_socktype h = SOCK_STREAM \<longrightarrow>
            result_protocols (getaddrinfo P node service hints res s) (Suc (Suc n))
              = Some [IPPROTO_TCP])
       \<and> (\<forall>h. hints = Some h \<and> ai_socktype h = SOCK_DGRAM \<longrightarrow>
            result_protocols (getaddrinfo P node service hints res s) (Suc (Suc n))
              = Some [IPPROTO_UDP])
       \<and> (hints = None \<or> (\<exists>h. hints = Some h \<and> ai_socktype h = 0) \<longrightarrow>
            result_protocols (getaddrinfo P node service hints res s) (Suc (Suc n))
              = Some [IPPROTO_TCP, IPPROTO_UDP])"
proof -
  obtain res' s' where out: "getaddrinfo P node service hints res s = (0, res', s')"
    using assms by (cases "getaddrinfo P node service hints res s") simp
  then show ?thesis
  proof (cases rule: getaddrinfo_cases)
    case hints
    from check_hints_Inl [OF hints(1)] show ?thesis
      by (simp add: EAI_defs)
  next
    case (node flags protocol)
    from resolve_node_Inl [OF node(2)] show ?thesis
      by (simp add: EAI_defs)
  next
    case (service flags protocol ip name0 s1)
    from resolve_service_Inl [OF service(3)] show ?thesis
      by (simp add: EAI_defs)
  next
    case (build flags protocol ip name0 s1 port s2)
    note p = check_hints_protocol [OF build(1)]
    have ne: "IPPROTO_TCP \<noteq> 0" "IPPROTO_UDP \<noteq> 0" "SOCK_STREAM \<noteq> SOCK_DGRAM"
      "SOCK_STREAM \<noteq> 0" "SOCK_DGRAM \<noteq> 0" "SOCK_RAW \<noteq> 0"
      "SOCK_STREAM \<noteq> SOCK_RAW" "SOCK_DGRAM \<noteq> SOCK_RAW"
      by (simp_all add: sock_defs)
    from p have pr: "protocol = 0 \<or> protocol = IPPROTO_TCP \<or> protocol = IPPROTO_UDP"
      by (auto simp: socktype_protocol_def split: option.splits if_splits)
    from build_results_ok [OF build(4) pr, of n] obtain l where
      l: "addrinfo_list (heap s') (Suc (Suc n)) res' = Some l"
      "map ai_protocol l = (if protocol = 0 then [IPPROTO_TCP, IPPROTO_UDP] else [protocol])"
      by blast
    from p ne have
      "\<forall>h. hints = Some h \<and> ai_socktype h = SOCK_STREAM \<longrightarrow> protocol = IPPROTO_TCP"
      "\<forall>h. hints = Some h \<and> ai_socktype h = SOCK_DGRAM \<longrightarrow> protocol = IPPROTO_UDP"
      "hints = None \<or> (\<exists>h. hints = Some h \<and> ai_socktype h = 0) \<longrightarrow> protocol = 0"
      by (auto simp: socktype_protocol_def split: option.splits if_splits)
    moreover have "result_protocols (getaddrinfo P node service hints res s) (Suc (Suc n))
        = Some (if protocol = 0 then [IPPROTO_TCP, IPPROTO_UDP] else [protocol])"
      using l by (simp add: out result_protocols_def)
    ultimately show ?thesis
      using ne by auto
  qed
qed

theorem getaddrinfo_record_per_protocol_witness:
  "fst (getaddrinfo os2 (Some ''10.0.0.1'') (Some ''80'')
          (Some (hints_of 0 0 SOCK_STREAM 0)) None init) = 0
   \<and> result_protocols (getaddrinfo os2 (Some ''10.0.0.1'') (Some ''80'')
          (Some (hints_of 0 0 SOCK_STREAM 0)) None init) (Suc (Suc 0)) = Some [IPPROTO_TCP]
   \<and> fst (getaddrinfo os2 (Some ''10.0.0.1'') (Some ''80'')
          (Some (hints_of 0 0 SOCK_DGRAM 0)) None init) = 0
   \<and> result_protocols (getaddrinfo os2 (Some ''10.0.0.1'') (Some ''80'')
          (Some (hints_of 0 0 SOCK_DGRAM 0)) None init) (Suc (Suc 0)) = Some [IPPROTO_UDP]
   \<and> fst (getaddrinfo os2 (Some ''10.0.0.1'') (Some ''80'') None None init) = 0
   \<and> result_protocols (getaddrinfo os2 (Some ''10.0.0.1'') (Some ''80'') None None init)
        (Suc (Suc 0)) = Some [IPPROTO_TCP, IPPROTO_UDP]"
proof -
  have a: "fst (getaddrinfo os2 (Some ''10.0.0.1'') (Some ''80'')
          (Some (hints_of 0 0 SOCK_STREAM 0)) None init) = 0"
    by (simp add: eval_defs)
  have b: "fst (getaddrinfo os2 (Some ''10.0.0.1'') (Some ''80'')
          (Some (hints_of 0 0 SOCK_DGRAM 0)) None init) = 0"
    by (simp add: eval_defs)
  have c: "fst (getaddrinfo os2 (Some ''10.0.0.1'') (Some ''80'') None None init) = 0"
    by (simp add: eval_defs)
  have st: "ai_socktype (hints_of 0 0 SOCK_STREAM 0) = SOCK_STREAM"
    "ai_socktype (hints_of 0 0 SOCK_DGRAM 0) = SOCK_DGRAM"
    by (simp_all add: hints_of_def)
  from getaddrinfo_record_per_protocol [OF a, of 0] getaddrinfo_record_per_protocol [OF b, of 0]
    getaddrinfo_record_per_protocol [OF c, of 0] st a b c
  show ?thesis
    by (simp add: sock_defs)
qed

section \<open>getnameinfo with numeric flags\<close>

lemma snprintf_fits:
  "int (length t) < sint (len::32 word) \<Longrightarrow> snprintf buf (unat len) t = (t, int (length t))"
proof -
  assume a: "int (length t) < sint len"
  then have "0 \<le> sint len" by simp
  then have "unat len = nat (sint len)" by (rule sint_nonneg_unat)
  with a show ?thesis by (simp add: snprintf_def)
qed

text \<open>
  C8: for an IPv4 socket address whose address field denotes a.b.c.d and whose port
  field denotes \<open>port\<close> (both in network byte order), and flags within the mask
  that contain \<open>NI_NUMERICHOST\<close> and \<open>NI_NUMERICSERV\<close>: with buffers large enough the
  call returns 0, the host buffer holds the four numbers in decimal separated by
  dots and the service buffer the port in decimal; when the host text does not fit
  \<open>hostlen\<close> the call returns \<open>EAI_OVERFLOW\<close> whatever the service buffer is, and when
  the service text does not fit \<open>servlen\<close> the call returns \<open>EAI_OVERFLOW\<close> whatever the
  host buffer is.
\<close>

theorem getnameinfo_numeric:
  assumes sa: "sizeof_sockaddr_in \<le> unat salen" "sin_family sa = AF_INET"
    and fl: "flags AND NOT NI_MASK = 0" "flags AND NI_NUMERICHOST \<noteq> 0"
      "flags AND NI_NUMERICSERV \<noteq> 0"
    and oct: "a < 256" "b < 256" "c < 256" "d < 256"
    and addr: "ntohl P (sin_addr sa) = ipv4_of_octets a b c d"
    and port: "unat (ntohs P (sin_port sa)) = port"
  shows "(int (length (dotted a b c d)) < sint hostlen \<and> int (length (fmt_u port)) < sint servlen
            \<longrightarrow> getnameinfo P sa salen (Some hbuf) hostlen (Some sbuf) servlen flags
                  = (0, Some (dotted a b c d), Some (fmt_u port)))
       \<and> (sint hostlen \<le> int (length (dotted a b c d))
            \<longrightarrow> fst (getnameinfo P sa salen (Some hbuf) hostlen serv servlen flags) = EAI_OVERFLOW)
       \<and> (sint servlen \<le> int (length (fmt_u port))
            \<longrightarrow> fst (getnameinfo P sa salen host hostlen (Some sbuf) servlen flags) = EAI_OVERFLOW)
       \<and> decimal_value (fmt_u port) = port"
proof -
  have f: "fmt_ipv4 (ntohl P (sin_addr sa)) = dotted a b c d"
    using oct by (simp add: addr fmt_ipv4_octets)
  have v: "\<not> unat salen < sizeof_sockaddr_in"
    using sa by simp
  have ok: "int (length (dotted a b c d)) < sint hostlen \<and> int (length (fmt_u port)) < sint servlen
      \<longrightarrow> getnameinfo P sa salen (Some hbuf) hostlen (Some sbuf) servlen flags
            = (0, Some (dotted a b c d), Some (fmt_u port))"
    using v sa(2) fl
    by (simp add: getnameinfo_def Let_def f port snprintf_fits)
  have ho: "sint hostlen \<le> int (length (dotted a b c d))
      \<longrightarrow> fst (getnameinfo P sa salen (Some hbuf) hostlen serv servlen flags) = EAI_OVERFLOW"
    using v sa(2) fl
    by (simp add: getnameinfo_def Let_def f port snprintf_def EAI_OVERFLOW_def)
  have so: "sint servlen \<le> int (length (fmt_u port))
      \<longrightarrow> fst (getnameinfo P sa salen host hostlen (Some sbuf) servlen flags) = EAI_OVERFLOW"
    using v sa(2) fl
    by (cases host)
      (auto simp: getnameinfo_def Let_def f port snprintf_def EAI_OVERFLOW_def
        split: prod.splits if_splits)
  from ok ho so show ?thesis
    by (simp add: decimal_value_fmt_u)
qed

theorem getnameinfo_numeric_witness:
  "getnameinfo os2 \<lparr>sin_len = 16, sin_family = AF_INET, sin_port = 0x901f, sin_addr = 0x0101A8C0\<rparr>
     16 (Some []) 16 (Some []) 6 (NI_NUMERICHOST OR NI_NUMERICSERV)
     = (0, Some ''192.168.1.1'', Some ''8080'')
   \<and> fst (getnameinfo os2
        \<lparr>sin_len = 16, sin_family = AF_INET, sin_port = 0x901f, sin_addr = 0x0101A8C0\<rparr>
        16 (Some []) 11 (Some []) 6 (NI_NUMERICHOST OR NI_NUMERICSERV)) = EAI_OVERFLOW
   \<and> fst (getnameinfo os2
        \<lparr>sin_len = 16, sin_family = AF_INET, sin_port = 0x901f, sin_addr = 0x0101A8C0\<rparr>
        16 (Some []) 16 (Some []) 4 (NI_NUMERICHOST OR NI_NUMERICSERV)) = EAI_OVERFLOW"
proof -
  let ?sa = "\<lparr>sin_len = 16, sin_family = AF_INET, sin_port = 0x901f, sin_addr = 0x0101A8C0\<rparr>"
  let ?fl = "NI_NUMERICHOST OR NI_NUMERICSERV"
  have sa: "sizeof_sockaddr_in \<le> unat (16::32 word)" "sin_family ?sa = AF_INET"
    by (simp_all add: sizeof_sockaddr_in_def)
  have fl: "?fl AND NOT NI_MASK = 0" "?fl AND NI_NUMERICHOST \<noteq> 0" "?fl AND NI_NUMERICSERV \<noteq> 0"
    by (simp_all add: NI_MASK_def NI_defs)
  have oct: "(192::nat) < 256" "(168::nat) < 256" "(1::nat) < 256"
    by simp_all
  have addr: "ntohl os2 (sin_addr ?sa) = ipv4_of_octets 192 168 1 1"
    by (simp add: ntohl_def os2_def bswap32_def ipv4_of_octets_def)
  have port: "unat (ntohs os2 (sin_port ?sa)) = 8080"
    by (simp add: ntohs_def os2_def bswap16_def)
  have shown: "dotted 192 168 1 1 = ''192.168.1.1''" "fmt_u 8080 = ''8080''"
    by (simp_all add: dotted_def fmt_u.simps digit_char_def)
  note w = getnameinfo_numeric [OF sa fl oct(1) oct(2) oct(3) oct(3) addr port, unfolded shown]
  from w [where hostlen = 16 and servlen = 6 and hbuf = "[]" and sbuf = "[]"]
    w [where hostlen = 11 and servlen = 6 and hbuf = "[]" and serv = "Some []"]
    w [where hostlen = 16 and servlen = 4 and sbuf = "[]" and host = "Some []"]
  show ?thesis
    by simp
qed

section \<open>The output pointer on return\<close>

lemma build_udp_Inl:
  "build_udp flags protocol ip port name s = Inl (rc, res', s') \<Longrightarrow>
     rc = EAI_SYSTEM \<and> res' = None \<and> errno s' = ENOMEM"
  by (auto simp: build_udp_def split: if_splits prod.splits option.splits)

lemma build_tcp_fail:
  assumes "build_tcp flags protocol ip port name res s = (rc, res', s')" "rc \<noteq> 0"
  shows "rc = EAI_SYSTEM \<and> res' = res \<and> errno s' = ENOMEM \<and> next_addr s \<le> next_addr s'
    \<and> (\<forall>x. x < next_addr s \<longrightarrow> heap s' x = heap s x)"
proof -
  from assms obtain s0 where
    mk: "makeipv4info SOCK_STREAM IPPROTO_TCP ip port name s = (None, s0)"
    and r: "rc = EAI_SYSTEM" "res' = res" "s' = s0\<lparr>errno := ENOMEM\<rparr>"
    by (auto simp: build_tcp_def split: if_splits prod.splits option.splits)
  from makeaddrinfo_None [OF mk [unfolded makeipv4info_def Let_def]] r show ?thesis
    by simp
qed

text \<open>
  A failing construction returns \<open>EAI_SYSTEM\<close> with \<open>errno\<close> set; it leaves \<open>*res\<close> null
  unless the first cell it allocated is still live.
\<close>

lemma build_results_fail:
  assumes "build_results flags protocol ip port name s = (rc, res', s')" "rc \<noteq> 0"
  shows "rc = EAI_SYSTEM \<and> errno s' = ENOMEM
    \<and> (res' = None \<or> next_addr s \<in> live_cells s s')"
proof (cases "build_udp flags protocol ip port name s")
  case (Inl failed)
  with assms(1) build_udp_Inl [of flags protocol ip port name s rc res' s'] show ?thesis
    by (simp add: build_results_def)
next
  case (Inr ok)
  obtain res1 s1 where ok: "ok = (res1, s1)"
    by (cases ok)
  with Inr assms(1) have tcp: "build_tcp flags protocol ip port name res1 s1 = (rc, res', s')"
    by (simp add: build_results_def)
  note t = build_tcp_fail [OF tcp assms(2)]
  note u = build_udp_Inr [OF Inr [unfolded ok]]
  show ?thesis
  proof (cases "protocol = 0 \<or> protocol = IPPROTO_UDP")
    case False
    with u t show ?thesis by simp
  next
    case True
    with u have lt: "Suc (next_addr s) < next_addr s1"
      and b: "built s1 (next_addr s) flags SOCK_DGRAM IPPROTO_UDP ip port None"
      by simp_all
    from b have "heap s1 (next_addr s) \<noteq> None"
      by (auto simp: built_def split: option.splits)
    moreover from lt t have "heap s' (next_addr s) = heap s1 (next_addr s)"
      "next_addr s < next_addr s'"
      by simp_all
    ultimately have "next_addr s \<in> live_cells s s'"
      by (simp add: live_cells_def)
    with t show ?thesis by simp
  qed
qed

text \<open>
  C3, as the claim states it, fails for a call whose hints are rejected: the call returns
  before the assignment \<open>*res = NULL\<close>, so \<open>*res\<close> keeps the value the caller had in
  it, here the address 7.
\<close>

theorem getaddrinfo_badflags_res_counterexample:
  "getaddrinfo os2 None None (Some (hints_of 8 0 0 0)) (Some 7) init
     = (EAI_BADFLAGS, Some 7, init)"
  by (simp add: getaddrinfo_def check_hints_def hints_of_def AI_MASK_def AI_defs)

text \<open>
  C3 (amended): a call whose hints are rejected returns the code of the failed check
  (\<open>EAI_BADFLAGS\<close>, \<open>EAI_FAMILY\<close>, \<open>EAI_SOCKTYPE\<close> or \<open>EAI_SERVICE\<close>) and leaves \<open>*res\<close>
  as the caller had it; any other failing call that leaves no cell of its own allocated
  returns with \<open>*res\<close> null; every failing call returns one of the twelve negative
  codes; a successful call returns 0 with \<open>*res\<close> the head of a list of one or two
  records.
\<close>

theorem getaddrinfo_res_on_return:
  assumes "getaddrinfo P node service hints res s = (rc, res', s')"
  shows "(\<forall>e. check_hints hints = Inl e \<longrightarrow>
            rc = e \<and> e \<in> {EAI_BADFLAGS, EAI_FAMILY, EAI_SOCKTYPE, EAI_SERVICE} \<and> res' = res)
       \<and> ((\<exists>v. check_hints hints = Inr v) \<and> rc \<noteq> 0 \<and> live_cells s s' = {} \<longrightarrow> res' = None)
       \<and> (rc \<noteq> 0 \<longrightarrow> rc \<in> eai_codes)
       \<and> (rc = 0 \<longrightarrow>
            map_option length (addrinfo_list (heap s') 2 res') = Some 1
            \<or> map_option length (addrinfo_list (heap s') 2 res') = Some 2)"
  using assms
proof (cases rule: getaddrinfo_cases)
  case hints
  from check_hints_Inl [OF hints(1)] hints show ?thesis
    by (auto simp: eai_codes_def EAI_defs)
next
  case (node flags protocol)
  from resolve_node_Inl [OF node(2)] node show ?thesis
    by (auto simp: eai_codes_def EAI_defs)
next
  case (service flags protocol ip name0 s1)
  from resolve_service_Inl [OF service(3)] service show ?thesis
    by (auto simp: eai_codes_def EAI_defs)
next
  case (build flags protocol ip name0 s1 port s2)
  from resolve_node_frame [OF build(2)] resolve_service_frame [OF build(3)]
  have na: "next_addr s2 = next_addr s"
    by (simp add: no_allocation_def)
  show ?thesis
  proof (cases "rc = 0")
    case False
    from build_results_fail [OF build(4) False] na build(1) False show ?thesis
      by (auto simp: eai_codes_def live_cells_def)
  next
    case True
    from check_hints_protocol [OF build(1)]
    have pr: "protocol = 0 \<or> protocol = IPPROTO_TCP \<or> protocol = IPPROTO_UDP"
      by (auto simp: socktype_protocol_def split: option.splits if_splits)
    from build_results_ok [OF build(4) [unfolded True] pr, of 0] obtain l where
      "addrinfo_list (heap s') (Suc (Suc 0)) res' = Some l"
      "map ai_protocol l = (if protocol = 0 then [IPPROTO_TCP, IPPROTO_UDP] else [protocol])"
      by blast
    then have "map_option length (addrinfo_list (heap s') 2 res') = Some 1
        \<or> map_option length (addrinfo_list (heap s') 2 res') = Some 2"
      by (auto simp: numeral_2_eq_2 split: if_splits)
    with True build(1) show ?thesis
      by auto
  qed
qed

theorem getaddrinfo_res_on_return_witness:
  "fst (getaddrinfo os2 None None (Some (hints_of 8 0 0 0)) (Some 7) init) = EAI_BADFLAGS
   \<and> fst (snd (getaddrinfo os2 None None (Some (hints_of 8 0 0 0)) (Some 7) init)) = Some 7
   \<and> fst (getaddrinfo os2 (Some ''10.0.0.1'') (Some ''80abc'') None (Some 7) init) = EAI_SERVICE
   \<and> fst (snd (getaddrinfo os2 (Some ''10.0.0.1'') (Some ''80abc'') None (Some 7) init)) = None
   \<and> fst (getaddrinfo os2 None None None (Some 7) init) = 0
   \<and> map_option length
        (addrinfo_list (heap (snd (snd (getaddrinfo os2 None None None (Some 7) init)))) 2
           (fst (snd (getaddrinfo os2 None None None (Some 7) init)))) = Some 2"
proof -
  define X where "X = getaddrinfo os2 None None (Some (hints_of 8 0 0 0)) (Some 7) init"
  define Y where "Y = getaddrinfo os2 (Some ''10.0.0.1'') (Some ''80abc'') None (Some 7) init"
  define Z where "Z = getaddrinfo os2 None None None (Some 7) init"
  have x: "getaddrinfo os2 None None (Some (hints_of 8 0 0 0)) (Some 7) init
      = (fst X, fst (snd X), snd (snd X))"
    by (simp add: X_def)
  have y: "getaddrinfo os2 (Some ''10.0.0.1'') (Some ''80abc'') None (Some 7) init
      = (fst Y, fst (snd Y), snd (snd Y))"
    by (simp add: Y_def)
  have z: "getaddrinfo os2 None None None (Some 7) init = (fst Z, fst (snd Z), snd (snd Z))"
    by (simp add: Z_def)
  have hx: "check_hints (Some (hints_of 8 0 0 0)) = Inl EAI_BADFLAGS"
    by (simp add: check_hints_def hints_of_def AI_MASK_def AI_defs)
  have hy: "check_hints None = Inr (0, 0)"
    by (simp add: check_hints_def)
  have ry: "fst Y = EAI_SERVICE"
    unfolding Y_def by (simp add: eval_defs)
  have ly: "live_cells init (snd (snd Y)) = {}"
    unfolding Y_def by (simp add: live_cells_def eval_defs)
  have rz: "fst Z = 0"
    unfolding Z_def by (simp add: eval_defs)
  have lz: "map_option length (addrinfo_list (heap (snd (snd Z))) 2 (fst (snd Z))) \<noteq> Some 1"
    unfolding Z_def by (simp add: eval_defs numeral_2_eq_2)
  from getaddrinfo_res_on_return [OF x] hx
  have a: "fst X = EAI_BADFLAGS \<and> fst (snd X) = Some 7"
    by simp
  from getaddrinfo_res_on_return [OF y] hy ry ly
  have b: "fst (snd Y) = None"
    by (simp add: EAI_defs)
  from getaddrinfo_res_on_return [OF z] rz lz
  have c: "map_option length (addrinfo_list (heap (snd (snd Z))) 2 (fst (snd Z))) = Some 2"
    by blast
  from a b c ry rz show ?thesis
    by (simp add: X_def Y_def Z_def)
qed

section \<open>The order of the checks\<close>

lemma resolve_node_numeric:
  assumes "node = None \<or> (\<exists>n. node = Some n \<and> inet_addr P n \<noteq> INADDR_NONE)"
  shows "\<exists>ip. resolve_node P node flags s = (Inr (ip, None), s)
      \<and> (\<forall>n. node = Some n \<longrightarrow> ip = inet_addr P n)"
  using assms by (auto simp: resolve_node_def Let_def)


lemma build_results_codes:
  "build_results flags protocol ip port name s = (rc, res', s') \<Longrightarrow> rc = 0 \<or> rc = EAI_SYSTEM"
  using build_results_fail by blast



lemma makeaddrinfo_succeeds:
  assumes "alloc_script s = []"
  shows "\<exists>a s'. makeaddrinfo af st pr addr len nm s = (Some a, s') \<and> alloc_script s' = []"
  using assms
  by (auto simp: makeaddrinfo_def strdup_def malloc_def alloc_cell_def store_def
      update_addrinfo_def Let_def split: option.splits)

lemma update_addrinfo_script:
  "alloc_script (update_addrinfo a f s) = alloc_script s"
  by (auto simp: update_addrinfo_def store_def split: option.splits obj.splits)

lemma build_results_succeeds:
  assumes "alloc_script s = []"
  shows "fst (build_results flags protocol ip port name s) = 0"
proof -
  have u: "\<exists>res s1. build_udp flags protocol ip port name s = Inr (res, s1)
      \<and> alloc_script s1 = []"
  proof (cases "protocol = 0 \<or> protocol = IPPROTO_UDP")
    case False
    with assms show ?thesis by (simp add: build_udp_def)
  next
    case True
    from makeaddrinfo_succeeds [OF assms] obtain a s0 where
      "makeipv4info SOCK_DGRAM IPPROTO_UDP ip port name s = (Some a, s0)" "alloc_script s0 = []"
      unfolding makeipv4info_def Let_def by blast
    with True show ?thesis
      by (simp add: build_udp_def set_passive_def update_addrinfo_script)
  qed
  then obtain res s1 where u1: "build_udp flags protocol ip port name s = Inr (res, s1)"
    and sc: "alloc_script s1 = []"
    by blast
  have "fst (build_tcp flags protocol ip port name res s1) = 0"
  proof (cases "protocol = 0 \<or> protocol = IPPROTO_TCP")
    case False
    then show ?thesis by (simp add: build_tcp_def)
  next
    case True
    from makeaddrinfo_succeeds [OF sc] obtain a s0 where
      "makeipv4info SOCK_STREAM IPPROTO_TCP ip port name s1 = (Some a, s0)"
      unfolding makeipv4info_def Let_def by blast
    with True show ?thesis
      by (simp add: build_tcp_def)
  qed
  with u1 show ?thesis
    by (simp add: build_results_def)
qed




section \<open>The empty service string\<close>

text \<open>
  The ports of a successful call are the port of the service, in every record; and a
  call whose hints are accepted, whose node is null or numeric and whose allocations
  all succeed is successful when the service resolves.
\<close>

lemma resolve_service_port:
  "resolve_service P service s1 = (Inr port, s2) \<Longrightarrow> fst (resolve_service P service s) = Inr port"
  by (auto simp: resolve_service_def Let_def split: option.splits prod.splits if_splits)

lemma getaddrinfo_ports:
  assumes ok: "fst (getaddrinfo P node service hints res s) = 0"
    and sv: "fst (resolve_service P service s) = Inr port"
  shows "result_ports (getaddrinfo P node service hints res s) (Suc (Suc n)) = Some [Some port]
       \<or> result_ports (getaddrinfo P node service hints res s) (Suc (Suc n))
            = Some [Some port, Some port]"
proof -
  obtain res' s' where out: "getaddrinfo P node service hints res s = (0, res', s')"
    using ok by (cases "getaddrinfo P node service hints res s") simp
  then show ?thesis
  proof (cases rule: getaddrinfo_cases)
    case hints
    from check_hints_Inl [OF hints(1)] show ?thesis
      by (simp add: EAI_defs)
  next
    case (node flags protocol)
    from resolve_node_Inl [OF node(2)] show ?thesis
      by (simp add: EAI_defs)
  next
    case (service flags protocol ip name0 s1)
    from resolve_service_Inl [OF service(3)] show ?thesis
      by (simp add: EAI_defs)
  next
    case (build flags protocol ip name0 s1 port' s2)
    from resolve_service_port [OF build(3), of s] sv have p: "port' = port"
      by simp
    from check_hints_protocol [OF build(1)]
    have pr: "protocol = 0 \<or> protocol = IPPROTO_TCP \<or> protocol = IPPROTO_UDP"
      by (auto simp: socktype_protocol_def split: option.splits if_splits)
    from build_results_ok [OF build(4) pr, of n] obtain l where
      l: "addrinfo_list (heap s') (Suc (Suc n)) res' = Some l"
      and m: "map ai_protocol l = (if protocol = 0 then [IPPROTO_TCP, IPPROTO_UDP] else [protocol])"
      and e: "\<forall>r \<in> set l. expected (heap s') flags ip port' r"
      by blast
    from m have "(\<exists>r. l = [r]) \<or> (\<exists>r r'. l = [r, r'])"
      by (cases l; cases "tl l") (auto split: if_splits)
    with e p have "map (\<lambda>r. map_option sin_port (sockaddr_of (heap s') r)) l = [Some port]
        \<or> map (\<lambda>r. map_option sin_port (sockaddr_of (heap s') r)) l = [Some port, Some port]"
      by (auto simp: expected_def)
    with l show ?thesis
      by (simp add: out result_ports_def)
  qed
qed

lemma getaddrinfo_succeeds:
  assumes h: "check_hints hints = Inr v"
    and n: "node = None \<or> (\<exists>n. node = Some n \<and> inet_addr P n \<noteq> INADDR_NONE)"
    and sv: "fst (resolve_service P service s) = Inr port"
    and sc: "alloc_script s = []"
  shows "fst (getaddrinfo P node service hints res s) = 0"
proof -
  obtain flags protocol where v: "v = (flags, protocol)"
    by (cases v)
  from resolve_node_numeric [OF n, of flags s] obtain ip where
    rn: "resolve_node P node flags s = (Inr (ip, None), s)"
    by blast
  obtain r s2 where rs: "resolve_service P service s = (r, s2)"
    by (cases "resolve_service P service s")
  with sv have r: "r = Inr port"
    by simp
  from resolve_service_frame [OF rs] sc have "alloc_script s2 = []"
    by (simp add: no_allocation_def)
  from build_results_succeeds [OF this] h v rn rs r show ?thesis
    by (simp add: getaddrinfo_def)
qed

text \<open>
  C10: for the service string \<open>""\<close>, \<open>strtoul\<close> converts nothing, returns 0 and leaves
  \<open>end\<close> at the terminator; the service resolution gives port 0 and does not fail, and
  the whole call behaves exactly as with a null service. The call can then return
  \<open>EAI_SERVICE\<close> only from the check of the hints, never for the service string. When
  the call succeeds, its result is a list of one or two records, each with port 0 in
  its socket address; and it does succeed when the hints are accepted, the node is
  null or numeric and no allocation fails.
\<close>

theorem getaddrinfo_empty_service:
  "getaddrinfo P node (Some []) hints res s = getaddrinfo P node None hints res s
   \<and> strtoul [] = (0, [], False)
   \<and> resolve_service P (Some []) s = (Inr 0, s)
   \<and> (fst (getaddrinfo P node (Some []) hints res s) = EAI_SERVICE
        \<longrightarrow> check_hints hints = Inl EAI_SERVICE)
   \<and> (fst (getaddrinfo P node (Some []) hints res s) = 0
        \<longrightarrow> result_ports (getaddrinfo P node (Some []) hints res s) (Suc (Suc n))
              = Some [Some 0]
          \<or> result_ports (getaddrinfo P node (Some []) hints res s) (Suc (Suc n))
              = Some [Some 0, Some 0])
   \<and> ((\<exists>v. check_hints hints = Inr v)
        \<and> (node = None \<or> (\<exists>a. node = Some a \<and> inet_addr P a \<noteq> INADDR_NONE))
        \<and> alloc_script s = []
        \<longrightarrow> fst (getaddrinfo P node (Some []) hints res s) = 0)"
proof -
  have st: "strtoul [] = (0, [], False)"
    by (simp add: strtoul_def)
  have rs: "resolve_service P (Some []) s = (Inr 0, s)" for s
    by (simp add: resolve_service_def st htons_def bswap16_def)
  have rn: "resolve_service P None s = (Inr 0, s)" for s
    by (simp add: resolve_service_def)
  have eq: "resolve_service P (Some []) = resolve_service P None"
    by (rule ext) (simp add: rs rn)
  have same: "getaddrinfo P node (Some []) hints res s = getaddrinfo P node None hints res s"
    unfolding getaddrinfo_def eq by (rule refl)
  have "check_hints hints = Inl EAI_SERVICE"
    if "getaddrinfo P node (Some []) hints res s = (EAI_SERVICE, res', s')" for res' s'
    using that
  proof (cases rule: getaddrinfo_cases)
    case hints
    then show ?thesis by simp
  next
    case (node flags protocol)
    from resolve_node_Inl [OF node(2)] show ?thesis
      by (simp add: EAI_defs)
  next
    case (service flags protocol ip name0 s1)
    with rs [of s1] show ?thesis by simp
  next
    case (build flags protocol ip name0 s1 port s2)
    from build_results_codes [OF build(4)] show ?thesis
      by (simp add: EAI_defs)
  qed
  then have only_hints: "fst (getaddrinfo P node (Some []) hints res s) = EAI_SERVICE
      \<longrightarrow> check_hints hints = Inl EAI_SERVICE"
    by (cases "getaddrinfo P node (Some []) hints res s") auto
  have port: "fst (resolve_service P (Some []) s) = Inr 0"
    by (simp add: rs)
  have ports: "fst (getaddrinfo P node (Some []) hints res s) = 0
      \<longrightarrow> result_ports (getaddrinfo P node (Some []) hints res s) (Suc (Suc n))
            = Some [Some 0]
        \<or> result_ports (getaddrinfo P node (Some []) hints res s) (Suc (Suc n))
            = Some [Some 0, Some 0]"
    by (rule impI) (rule getaddrinfo_ports [OF _ port])
  have succeeds: "(\<exists>v. check_hints hints = Inr v)
      \<and> (node = None \<or> (\<exists>a. node = Some a \<and> inet_addr P a \<noteq> INADDR_NONE))
      \<and> alloc_script s = []
      \<longrightarrow> fst (getaddrinfo P node (Some []) hints res s) = 0"
  proof (intro impI, elim conjE exE)
    fix v
    assume h: "check_hints hints = Inr v"
      and nd: "node = None \<or> (\<exists>a. node = Some a \<and> inet_addr P a \<noteq> INADDR_NONE)"
      and sc: "alloc_script s = []"
    show "fst (getaddrinfo P node (Some []) hints res s) = 0"
      by (rule getaddrinfo_succeeds [OF h nd port sc])
  qed
  show ?thesis
    by (rule conjI [OF same conjI [OF st conjI [OF rs conjI [OF only_hints
          conjI [OF ports succeeds]]]]])
qed

theorem getaddrinfo_empty_service_witness:
  "getaddrinfo os2 (Some ''10.0.0.1'') (Some []) None None init
     = getaddrinfo os2 (Some ''10.0.0.1'') None None None init
   \<and> fst (getaddrinfo os2 (Some ''10.0.0.1'') (Some []) None None init) = 0
   \<and> result_ports (getaddrinfo os2 (Some ''10.0.0.1'') (Some []) None None init) (Suc (Suc 0))
       = Some [Some 0, Some 0]
   \<and> resolve_service os2 (Some []) init = (Inr 0, init)
   \<and> fst (getaddrinfo os2 None (Some []) (Some (hints_of 0 0 SOCK_STREAM IPPROTO_UDP)) None init)
       = EAI_SERVICE
   \<and> check_hints (Some (hints_of 0 0 SOCK_STREAM IPPROTO_UDP)) = Inl EAI_SERVICE"
proof -
  note t = getaddrinfo_empty_service [where P = os2 and node = "Some ''10.0.0.1''"
      and hints = None and res = None and s = init and n = 0]
  note u = getaddrinfo_empty_service [where P = os2 and node = None
      and hints = "Some (hints_of 0 0 SOCK_STREAM IPPROTO_UDP)" and res = None and s = init
      and n = 0]
  have c: "(\<exists>v. check_hints None = Inr v)
      \<and> (Some ''10.0.0.1'' = None
          \<or> (\<exists>a. Some ''10.0.0.1'' = Some a \<and> inet_addr os2 a \<noteq> INADDR_NONE))
      \<and> alloc_script init = []"
    by (simp add: eval_defs)
  note t6 = t [THEN conjunct2, THEN conjunct2, THEN conjunct2, THEN conjunct2, THEN conjunct2]
  note t5 = t [THEN conjunct2, THEN conjunct2, THEN conjunct2, THEN conjunct2, THEN conjunct1]
  from t6 c have a: "fst (getaddrinfo os2 (Some ''10.0.0.1'') (Some []) None None init) = 0"
    by (rule mp)
  have one: "result_ports (getaddrinfo os2 (Some ''10.0.0.1'') (Some []) None None init)
      (Suc (Suc 0)) \<noteq> Some [Some 0]"
    by (simp add: eval_defs)
  from t5 a have "result_ports (getaddrinfo os2 (Some ''10.0.0.1'') (Some []) None None init)
        (Suc (Suc 0)) = Some [Some 0]
      \<or> result_ports (getaddrinfo os2 (Some ''10.0.0.1'') (Some []) None None init)
        (Suc (Suc 0)) = Some [Some 0, Some 0]"
    by (rule mp)
  with one have p: "result_ports (getaddrinfo os2 (Some ''10.0.0.1'') (Some []) None None init)
      (Suc (Suc 0)) = Some [Some 0, Some 0]"
    by simp
  have b: "fst (getaddrinfo os2 None (Some []) (Some (hints_of 0 0 SOCK_STREAM IPPROTO_UDP))
      None init) = EAI_SERVICE"
    by (simp add: eval_defs)
  from u [THEN conjunct2, THEN conjunct2, THEN conjunct2, THEN conjunct1] b
  have h: "check_hints (Some (hints_of 0 0 SOCK_STREAM IPPROTO_UDP)) = Inl EAI_SERVICE"
    by (rule mp)
  note e = t [THEN conjunct1]
  note r = t [THEN conjunct2, THEN conjunct2, THEN conjunct1]
  show ?thesis
    by (rule conjI [OF e conjI [OF a conjI [OF p conjI [OF r conjI [OF b h]]]]])
qed

section \<open>Numeric nodes\<close>

text \<open>
  With \<open>AI_NUMERICHOST\<close>, a node that \<open>inet_addr\<close> answers \<open>INADDR_NONE\<close> for fails
  without any lookup, with the code read from the \<open>h_errno\<close> at the call.
\<close>

lemma getaddrinfo_numerichost_no_lookup:
  assumes "check_hints hints = Inr (flags, protocol)" "flags AND AI_NUMERICHOST \<noteq> 0"
    "inet_addr P n = INADDR_NONE"
  shows "getaddrinfo P (Some n) service hints res s = (gai_error_from_herrno s, None, s)"
  using assms by (simp add: getaddrinfo_def resolve_node_def)

text \<open>
  A node for which \<open>inet_addr\<close> answers anything but \<open>INADDR_NONE\<close> is used directly:
  no lookup, and every record of a successful call carries that address.
\<close>

lemma getaddrinfo_numeric_node:
  assumes num: "inet_addr P n \<noteq> INADDR_NONE"
    and out: "getaddrinfo P (Some n) service hints res s = (0, res', s')"
  shows "lookups s' = lookups s
    \<and> (\<exists>l. addrinfo_list (heap s') 2 res' = Some l \<and> l \<noteq> []
          \<and> (\<forall>r \<in> set l. map_option sin_addr (sockaddr_of (heap s') r) = Some (inet_addr P n)))"
  using out
proof (cases rule: getaddrinfo_cases)
  case hints
  from check_hints_Inl [OF hints(1)] show ?thesis
    by (simp add: EAI_defs)
next
  case (node flags protocol)
  from resolve_node_Inl [OF node(2)] show ?thesis
    by (simp add: EAI_defs)
next
  case (service flags protocol ip name0 s1)
  from resolve_service_Inl [OF service(3)] show ?thesis
    by (simp add: EAI_defs)
next
  case (build flags protocol ip name0 s1 port s2)
  from resolve_node_numeric [of "Some n" P flags s] num build(2)
  have ip: "ip = inet_addr P n" and s1: "s1 = s"
    by auto
  from resolve_service_frame [OF build(3)] s1 have lk: "lookups s2 = lookups s"
    by simp
  from check_hints_protocol [OF build(1)]
  have pr: "protocol = 0 \<or> protocol = IPPROTO_TCP \<or> protocol = IPPROTO_UDP"
    by (auto simp: socktype_protocol_def split: option.splits if_splits)
  from build_results_ok [OF build(4) pr, of 0] obtain l where
    l: "addrinfo_list (heap s') (Suc (Suc 0)) res' = Some l"
    "map ai_protocol l = (if protocol = 0 then [IPPROTO_TCP, IPPROTO_UDP] else [protocol])"
    "\<forall>r \<in> set l. expected (heap s') flags ip port r"
    "lookups s' = lookups s2"
    by blast
  from l(2) have "l \<noteq> []"
    by (auto split: if_splits)
  with l lk ip show ?thesis
    by (auto simp: expected_def numeral_2_eq_2)
qed

section \<open>Where the code departs from its contract\<close>

text \<open>
  C1: \<open>freeaddrinfo\<close> on the head of a two-record list. The list is the one
  \<open>getaddrinfo\<close> builds for \<open>localhost\<close> with the canonical name: the UDP record in
  cell 0 with its address in cell 1 and its name in cell 2, the TCP record in cell 3
  with its address in cell 4 and its name in cell 5. \<open>freeaddrinfo\<close> frees cells 5, 4,
  0 and 3, in that order: the second record is passed to \<open>free\<close>, not to
  \<open>freeaddrinfo\<close>, so its address and its name stay allocated.
\<close>

theorem freeaddrinfo_two_records_leak:
  "fst two_records = 0
   \<and> fst (snd two_records) = Some 3
   \<and> result_protocols two_records (Suc (Suc 0)) = Some [IPPROTO_TCP, IPPROTO_UDP]
   \<and> frees (freeaddrinfo (Some 3) (snd (snd two_records))) = [5, 4, 0, 3]
   \<and> heap (freeaddrinfo (Some 3) (snd (snd two_records))) 1
       = Some (Sockaddr \<lparr>sin_len = 16, sin_family = AF_INET, sin_port = 0,
                         sin_addr = 0x0100007f\<rparr>)
   \<and> heap (freeaddrinfo (Some 3) (snd (snd two_records))) 2 = Some (Cstring ''localhost'')"
  by (simp add: eval_defs)

text \<open>
  C2: the UDP record is built (two allocations succeed) and the allocation of the TCP
  record fails. The call sets \<open>errno\<close> to \<open>ENOMEM\<close> and returns \<open>EAI_SYSTEM\<close>, but
  nothing is freed and \<open>*res\<close> still points at the UDP record in cell 0.
\<close>

theorem getaddrinfo_tcp_failure_keeps_udp:
  "fst (getaddrinfo os2 None None None None (init\<lparr>alloc_script := [True, True, False]\<rparr>))
     = EAI_SYSTEM
   \<and> errno (snd (snd (getaddrinfo os2 None None None None
        (init\<lparr>alloc_script := [True, True, False]\<rparr>)))) = ENOMEM
   \<and> fst (snd (getaddrinfo os2 None None None None
        (init\<lparr>alloc_script := [True, True, False]\<rparr>))) = Some 0
   \<and> result_protocols (getaddrinfo os2 None None None None
        (init\<lparr>alloc_script := [True, True, False]\<rparr>)) (Suc (Suc 0)) = Some [IPPROTO_UDP]
   \<and> frees (snd (snd (getaddrinfo os2 None None None None
        (init\<lparr>alloc_script := [True, True, False]\<rparr>)))) = []"
  by (simp add: eval_defs)

text \<open>
  C4: the literal 255.255.255.255. Its address is the value \<open>INADDR_NONE\<close> by which
  \<open>inet_addr\<close> reports a text that is no address, so the call takes the literal for a
  host name: with \<open>AI_NUMERICHOST\<close> it fails (here with \<open>EAI_SYSTEM\<close>, from an
  \<open>h_errno\<close> of 0), without it \<open>gethostbyname\<close> is called.
\<close>

theorem getaddrinfo_broadcast_literal:
  "inet_addr os2 ''255.255.255.255'' = INADDR_NONE
   \<and> getaddrinfo os2 (Some ''255.255.255.255'') (Some ''0'')
        (Some (hints_of AI_NUMERICHOST 0 0 0)) None init = (EAI_SYSTEM, None, init)
   \<and> fst (getaddrinfo os2 (Some ''255.255.255.255'') (Some ''0'') None None init) = EAI_NONAME
   \<and> lookups (snd (snd (getaddrinfo os2 (Some ''255.255.255.255'') (Some ''0'') None None init)))
       = [''255.255.255.255'']"
  by (simp add: eval_defs)

text \<open>
  C5: a host name with \<open>AI_NUMERICHOST\<close>. The lookup is skipped, and the value
  returned is read from whatever \<open>h_errno\<close> holds from earlier calls: \<open>EAI_AGAIN\<close>
  after a \<open>TRY_AGAIN\<close>, \<open>EAI_SYSTEM\<close> when it is 0.
\<close>

theorem getaddrinfo_numerichost_stale_h_errno:
  "getaddrinfo os2 (Some ''example.org'') None (Some (hints_of AI_NUMERICHOST 0 0 0)) None
     (init\<lparr>h_errno := TRY_AGAIN\<rparr>) = (EAI_AGAIN, None, init\<lparr>h_errno := TRY_AGAIN\<rparr>)
   \<and> getaddrinfo os2 (Some ''example.org'') None (Some (hints_of AI_NUMERICHOST 0 0 0)) None
     init = (EAI_SYSTEM, None, init)"
  by (simp add: eval_defs)

end
